theory Spec2Isabelle
  imports Complex_Main
begin

section \<open>Data model\<close>

text \<open>
  Instants are JavaScript time values: milliseconds since the epoch, as \<open>Date.getTime()\<close>
  returns them. Prices are JavaScript numbers; they are modelled as real numbers, so the
  rounding of IEEE doubles is not part of the model. Identifiers (uuid strings) are strings.
\<close>

type_synonym instant = int

text \<open>
  \<open>DurationKey\<close> of slot-service.ts. The functions that take \<open>duration: string\<close> have a
  branch for a string that is no key of \<open>SLOT_CONFIGURATIONS\<close>; \<open>DOther\<close> stands for any
  such string.
\<close>

datatype DurationKey = D1h | D3h | D6h | D24h | D48h | D1w | D1m | D3m | D6m | D1y | DOther

record slot_config =
  intervals :: int
  intervalDuration :: int
  points :: "int list"

datatype direction = Up | Down

datatype pred_status = Active | Expired | Evaluated

datatype pred_result = Pending | Correct | Incorrect

record user =
  userIdent :: string
  emailVerified :: bool

record asset =
  assetIdent :: string
  symbol :: string
  isActive :: bool

record prediction =
  predId :: string
  userId :: string
  assetId :: string
  direction :: direction
  duration :: DurationKey
  slotNumber :: int
  slotStart :: instant
  slotEnd :: instant
  timestampCreated :: instant
  timestampExpiration :: instant
  status :: pred_status
  result :: pred_result
  pointsAwarded :: "int option"
  priceStart :: "real option"
  priceEnd :: "real option"
  evaluatedAt :: "instant option"

record user_profile =
  profileUserId :: string
  totalPredictions :: int
  correctPredictions :: int
  monthlyScore :: int
  totalScore :: int

text \<open>The tables that prediction-service.ts reads and writes through \<open>db\<close>.\<close>

record db =
  users :: "user list"
  assets :: "asset list"
  predictions :: "prediction list"
  userProfiles :: "user_profile list"

text \<open>
  Every \<open>throw new Error(...)\<close> of prediction-service.ts, and the error replies of the
  admin route, as values. The spec's names: \<open>PredictionNotActive\<close> is NotActiveError,
  \<open>AlreadyHavePrediction\<close> is DuplicatePredictionError, \<open>UserNotFound\<close> and
  \<open>EmailVerificationRequired\<close> are UnverifiedUserError, \<open>AssetNotFound\<close> and
  \<open>AssetNotAvailable\<close> are AssetUnavailableError, \<open>SlotNotValid\<close> is InvalidSlotError,
  \<open>CurrentPriceUnavailable\<close> and \<open>EndPriceUnavailable\<close> are PriceUnavailableError.
\<close>

datatype error =
    UserNotFound
  | EmailVerificationRequired
  | AssetNotFound
  | AssetNotAvailable
  | SlotNotValid
  | AlreadyHavePrediction
  | NoActiveSlot
  | CurrentPriceUnavailable
  | PredictionNotFound
  | PredictionNotActive
  | EndPriceUnavailable
  | StartPriceUnavailable
  | InvalidResultValue

text \<open>The object \<open>getCurrentActiveSlot\<close> of lib/slots returns, as createPrediction reads it.\<close>

record active_slot =
  as_slotNumber :: int
  as_slotStart :: instant
  as_slotEnd :: instant

text \<open>
  What a call of prediction-service.ts takes from outside the database: the clock, the
  price oracle (\<open>getLiveAssetPrice\<close>, \<open>getAssetPrice\<close> of price-service, \<open>None\<close> for
  \<open>null\<close>), the identifier the database gives an inserted row, and the three functions
  that createPrediction imports from lib/slots, a module that is not among the sources:
  they are parameters here, each applied to the arguments the source passes.
\<close>

record env =
  now :: instant
  getLiveAssetPrice :: "string \<Rightarrow> real option"
  getAssetPrice :: "string \<Rightarrow> real option"
  freshId :: string
  getCurrentActiveSlot :: "DurationKey \<Rightarrow> active_slot"
  isSlotValid :: "DurationKey \<Rightarrow> int \<Rightarrow> bool"
  isWithinActiveSlot :: "instant \<Rightarrow> DurationKey \<Rightarrow> bool"

record create_input =
  in_userId :: string
  in_assetSymbol :: string
  in_direction :: direction
  in_duration :: DurationKey

text \<open>
  The body of \<open>POST /admin/predictions/:id/evaluate\<close>; \<open>None\<close> is a field that is
  absent (\<open>undefined\<close>).
\<close>

record admin_body =
  b_result :: "string option"
  b_pointsAwarded :: "int option"
  b_priceStart :: "real option"
  b_priceEnd :: "real option"

record eval_result =
  r_predictionId :: string
  r_isCorrect :: bool
  r_pointsAwarded :: int
  r_startPrice :: real
  r_endPrice :: real

section \<open>Duration catalog (slot-service.ts)\<close>

definition SLOT_CONFIGURATIONS :: "DurationKey \<Rightarrow> slot_config option" where
  "SLOT_CONFIGURATIONS d = (case d of
      D1h \<Rightarrow> Some \<lparr>intervals = 4, intervalDuration = 15, points = [10, 5, 2, 1]\<rparr>
    | D3h \<Rightarrow> Some \<lparr>intervals = 6, intervalDuration = 30, points = [20, 15, 10, 5, 2, 1]\<rparr>
    | D6h \<Rightarrow> Some \<lparr>intervals = 6, intervalDuration = 60, points = [30, 20, 15, 10, 5, 1]\<rparr>
    | D24h \<Rightarrow> Some \<lparr>intervals = 8, intervalDuration = 180,
                    points = [40, 30, 20, 15, 10, 5, 2, 1]\<rparr>
    | D48h \<Rightarrow> Some \<lparr>intervals = 8, intervalDuration = 360,
                    points = [50, 40, 30, 20, 15, 10, 5, 1]\<rparr>
    | D1w \<Rightarrow> Some \<lparr>intervals = 7, intervalDuration = 1440,
                   points = [60, 50, 40, 30, 20, 10, 5]\<rparr>
    | D1m \<Rightarrow> Some \<lparr>intervals = 4, intervalDuration = 10080, points = [80, 60, 40, 20]\<rparr>
    | D3m \<Rightarrow> Some \<lparr>intervals = 3, intervalDuration = 43200, points = [100, 60, 30]\<rparr>
    | D6m \<Rightarrow> Some \<lparr>intervals = 6, intervalDuration = 43200,
                   points = [120, 100, 80, 60, 40, 20]\<rparr>
    | D1y \<Rightarrow> Some \<lparr>intervals = 4, intervalDuration = 129600, points = [150, 100, 50, 20]\<rparr>
    | DOther \<Rightarrow> None)"

text \<open>
  \<open>getPointsForSlot\<close> (slot-service.ts). prediction-service.ts imports the function of
  this name from lib/slots, which is not among the sources; this is the exported function
  of the same name and signature.
\<close>

definition getPointsForSlot :: "DurationKey \<Rightarrow> int \<Rightarrow> int" where
  "getPointsForSlot d n = (case SLOT_CONFIGURATIONS d of
      None \<Rightarrow> 0
    | Some config \<Rightarrow>
        if n < 1 \<or> n > int (length (points config)) then 0
        else points config ! nat (n - 1))"

section \<open>Time: the JavaScript Date of the server\<close>

text \<open>
  slot-service.ts reads and sets the fields of a \<open>Date\<close> in the local zone of the server
  process. The model takes that zone as a constant offset \<open>tzo\<close>, the value of
  \<open>getTimezoneOffset()\<close>: minutes, UTC minus local time (a zone with daylight saving is
  outside the model). The calendar is ECMAScript's proleptic Gregorian one: days since the
  epoch to year, month, day and back, by the usual era arithmetic.
\<close>

definition msPerDay :: int where
  "msPerDay = 86400000"

definition localTime :: "int \<Rightarrow> instant \<Rightarrow> int" where
  "localTime tzo t = t - tzo * 60000"

definition localMidnight :: "int \<Rightarrow> instant \<Rightarrow> instant" where
  "localMidnight tzo t = t - localTime tzo t mod msPerDay"

definition days_from_civil :: "int \<Rightarrow> int \<Rightarrow> int \<Rightarrow> int" where
  "days_from_civil y m d =
     (let y' = (if m \<le> 2 then y - 1 else y);
          era = y' div 400;
          yoe = y' - era * 400;
          doy = (153 * (if m > 2 then m - 3 else m + 9) + 2) div 5 + d - 1;
          doe = yoe * 365 + yoe div 4 - yoe div 100 + doy
      in era * 146097 + doe - 719468)"

definition civil_from_days :: "int \<Rightarrow> int \<times> int \<times> int" where
  "civil_from_days z =
     (let z' = z + 719468;
          era = z' div 146097;
          doe = z' - era * 146097;
          yoe = (doe - doe div 1460 + doe div 36524 - doe div 146096) div 365;
          doy = doe - (365 * yoe + yoe div 4 - yoe div 100);
          mp = (5 * doy + 2) div 153;
          d = doy - (153 * mp + 2) div 5 + 1;
          m = (if mp < 10 then mp + 3 else mp - 9);
          y = yoe + era * 400
      in (if m \<le> 2 then y + 1 else y, m, d))"

definition getFullYear :: "int \<Rightarrow> instant \<Rightarrow> int" where
  "getFullYear tzo t = fst (civil_from_days (localTime tzo t div msPerDay))"

text \<open>\<open>getMonth\<close> counts from 0.\<close>

definition getMonth :: "int \<Rightarrow> instant \<Rightarrow> int" where
  "getMonth tzo t = fst (snd (civil_from_days (localTime tzo t div msPerDay))) - 1"

definition getDate :: "int \<Rightarrow> instant \<Rightarrow> int" where
  "getDate tzo t = snd (snd (civil_from_days (localTime tzo t div msPerDay)))"

text \<open>\<open>getDay\<close>: 0 is Sunday; the epoch day was a Thursday.\<close>

definition getDay :: "int \<Rightarrow> instant \<Rightarrow> int" where
  "getDay tzo t = (localTime tzo t div msPerDay + 4) mod 7"

text \<open>
  \<open>new Date(y, m, d)\<close>: local midnight of day \<open>d\<close> of month \<open>m\<close> (from 0) of year \<open>y\<close>;
  months and days beyond their range carry over, and a year from 0 to 99 means 1900 + y.
\<close>

definition toFullYear :: "int \<Rightarrow> int" where
  "toFullYear y = (if 0 \<le> y \<and> y \<le> 99 then 1900 + y else y)"

definition newDate :: "int \<Rightarrow> int \<Rightarrow> int \<Rightarrow> int \<Rightarrow> instant" where
  "newDate tzo y m d =
     (days_from_civil (toFullYear y + m div 12) (m mod 12 + 1) 1 + d - 1) * msPerDay
       + tzo * 60000"

text \<open>\<open>t.setHours(h, m, s, ms)\<close>: the same local day, at the given time of day.\<close>

definition setHours :: "int \<Rightarrow> instant \<Rightarrow> int \<Rightarrow> int \<Rightarrow> int \<Rightarrow> int \<Rightarrow> instant" where
  "setHours tzo t h m sec ms =
     localMidnight tzo t + h * 3600000 + m * 60000 + sec * 1000 + ms"

text \<open>
  \<open>t.setDate(d)\<close>: day \<open>d\<close> of t's month at t's time of day, which is \<open>d - getDate()\<close>
  days from t.
\<close>

definition setDate :: "int \<Rightarrow> instant \<Rightarrow> int \<Rightarrow> instant" where
  "setDate tzo t d = t + (d - getDate tzo t) * msPerDay"

text \<open>\<open>t.setMonth(m)\<close>: month \<open>m\<close> of t's year, t's day of the month and time of day.\<close>

definition setMonth :: "int \<Rightarrow> instant \<Rightarrow> int \<Rightarrow> instant" where
  "setMonth tzo t m =
     newDate tzo (getFullYear tzo t) m (getDate tzo t) + localTime tzo t mod msPerDay"

definition setMilliseconds :: "int \<Rightarrow> instant \<Rightarrow> int \<Rightarrow> instant" where
  "setMilliseconds tzo t ms = t - localTime tzo t mod 1000 + ms"

text \<open>JavaScript's \<open>a % b\<close> on integers: the remainder has the sign of \<open>a\<close>.\<close>

definition jsRem :: "int \<Rightarrow> int \<Rightarrow> int" where
  "jsRem a b = (if 0 \<le> a then a mod \<bar>b\<bar> else - ((- a) mod \<bar>b\<bar>))"

section \<open>Time: luxon in the zone Europe/Berlin\<close>

text \<open>
  getSlotForDate works on a luxon \<open>DateTime\<close> set to the zone \<open>Europe/Berlin\<close>. The
  library and its zone data are outside the repository: the operations the function
  calls are the fields of a record, each on instants. \<open>diff\<close> in minutes and \<open>plus\<close> of
  minutes are exact arithmetic on instants and are written out where they are used.
\<close>

record zone =
  startOfDay :: "instant \<Rightarrow> instant"
  startOfWeek :: "instant \<Rightarrow> instant"
  startOfMonth :: "instant \<Rightarrow> instant"
  startOfYear :: "instant \<Rightarrow> instant"
  monthOf :: "instant \<Rightarrow> int"
  setMonthDay :: "instant \<Rightarrow> int \<Rightarrow> int \<Rightarrow> instant"
  toFormatHHmm :: "instant \<Rightarrow> string"

record slot_info =
  si_slotNumber :: int
  si_startTime :: string
  si_endTime :: string
  si_pointsIfCorrect :: int
  si_penaltyIfWrong :: int
  si_isActive :: bool

section \<open>Slot clock (slot-service.ts)\<close>

text \<open>The \<open>switch\<close> of getSlotForDate: the start of the period that holds the instant.\<close>

definition periodStart :: "zone \<Rightarrow> DurationKey \<Rightarrow> instant \<Rightarrow> instant" where
  "periodStart z d now' = (case d of
      D1h \<Rightarrow> startOfDay z now'
    | D3h \<Rightarrow> startOfDay z now'
    | D6h \<Rightarrow> startOfDay z now'
    | D24h \<Rightarrow> startOfDay z now'
    | D48h \<Rightarrow> startOfDay z now'
    | D1w \<Rightarrow> startOfWeek z now'
    | D1m \<Rightarrow> startOfMonth z now'
    | D3m \<Rightarrow> (let quarter = (monthOf z now' - 1) div 3
              in startOfDay z (setMonthDay z now' (quarter * 3 + 1) 1))
    | D6m \<Rightarrow> (let quarter = (monthOf z now' - 1) div 3
              in startOfDay z (setMonthDay z now' (quarter * 3 + 1) 1))
    | D1y \<Rightarrow> startOfYear z now'
    | DOther \<Rightarrow> startOfDay z now')"

text \<open>
  The slot number of getSlotForDate: \<open>diff(periodStart, 'minutes').minutes\<close> is the
  difference of the instants in minutes, a fraction.
\<close>

definition slotNumberAt :: "slot_config \<Rightarrow> instant \<Rightarrow> instant \<Rightarrow> int" where
  "slotNumberAt config pStart now' =
     (let minutesSinceStart = real_of_int (now' - pStart) / 60000;
          slotIndex = \<lfloor>minutesSinceStart / real_of_int (intervalDuration config)\<rfloor>
      in min (max (slotIndex + 1) 1) (intervals config))"

text \<open>
  The two instants that getSlotForDate formats: \<open>periodStart.plus({minutes: ...})\<close> with
  \<open>slotStartMinutes\<close> and \<open>slotEndMinutes\<close>.
\<close>

definition slotBounds :: "slot_config \<Rightarrow> instant \<Rightarrow> int \<Rightarrow> instant \<times> instant" where
  "slotBounds config pStart n =
     (let slotStartMinutes = (n - 1) * intervalDuration config;
          slotEndMinutes = n * intervalDuration config - 1
      in (pStart + slotStartMinutes * 60000, pStart + slotEndMinutes * 60000))"

text \<open>\<open>config.points[i] || 0\<close>.\<close>

definition pointsOr0 :: "int list \<Rightarrow> int \<Rightarrow> int" where
  "pointsOr0 ps i = (if 0 \<le> i \<and> i < int (length ps) then ps ! nat i else 0)"

definition getSlotForDate :: "zone \<Rightarrow> instant \<Rightarrow> DurationKey \<Rightarrow> slot_info" where
  "getSlotForDate z date d =
     (let pStart = periodStart z d date in
      case SLOT_CONFIGURATIONS d of
        None \<Rightarrow> \<lparr>si_slotNumber = 1, si_startTime = ''00:00'', si_endTime = ''23:59'',
                  si_pointsIfCorrect = 0, si_penaltyIfWrong = 0, si_isActive = False\<rparr>
      | Some config \<Rightarrow>
          let slotNumber' = slotNumberAt config pStart date;
              bounds = slotBounds config pStart slotNumber'
          in \<lparr>si_slotNumber = slotNumber',
              si_startTime = toFormatHHmm z (fst bounds),
              si_endTime = toFormatHHmm z (snd bounds),
              si_pointsIfCorrect = pointsOr0 (points config) (slotNumber' - 1),
              si_penaltyIfWrong = max 1 (pointsOr0 (points config) (slotNumber' - 1) div 2),
              si_isActive = False\<rparr>)"

datatype slot_error = InvalidDuration

text \<open>
  getCurrentSlot, at the clock reading \<open>clock\<close>. \<open>new Date(y, m, d)\<close> of the clock's own
  local year, month and date is the local midnight of its day. The anchor is that
  midnight for every duration.
\<close>

definition getCurrentSlot :: "int \<Rightarrow> instant \<Rightarrow> DurationKey \<Rightarrow> slot_error + int" where
  "getCurrentSlot tzo clock d =
     (case SLOT_CONFIGURATIONS d of
        None \<Rightarrow> Inl InvalidDuration
      | Some config \<Rightarrow>
          let slotDuration = intervalDuration config * 60 * 1000;
              startOfDay' = localMidnight tzo clock;
              timeSinceStartOfDay = clock - startOfDay';
              slotNumber' = timeSinceStartOfDay div slotDuration + 1
          in Inr (min slotNumber' (intervals config)))"

text \<open>
  getCurrentCESTTime of slot-service.ts: \<open>DateTime.now().setZone('Europe/Berlin').toJSDate()\<close>.
  Setting the zone does not move the instant, and \<open>toJSDate\<close> returns the instant.
\<close>

definition getCurrentCESTTime :: "instant \<Rightarrow> instant" where
  "getCurrentCESTTime clock = clock"

text \<open>
  getCurrentCESTTime of the earlier slot service (the unnamed source with the same
  functions): the clock moved by the server's offset and two hours.
\<close>

definition getCurrentCESTTime_fixed :: "int \<Rightarrow> instant \<Rightarrow> instant" where
  "getCurrentCESTTime_fixed tzo clock =
     (let cestOffset = 2; utc = clock + tzo * 60000 in utc + cestOffset * 3600000)"

text \<open>getSlotTimes, with \<open>now'\<close> the value of its call of getCurrentCESTTime.\<close>

definition getSlotTimes :: "int \<Rightarrow> instant \<Rightarrow> DurationKey \<Rightarrow> int \<Rightarrow> instant \<times> instant" where
  "getSlotTimes tzo now' d n =
     (case SLOT_CONFIGURATIONS d of
        None \<Rightarrow> (now', now')
      | Some config \<Rightarrow>
          if d = D1h then
            (let startMinutes = (n - 1) * 15; endMinutes = n * 15 - 1
             in (setHours tzo now' (startMinutes div 60) (jsRem startMinutes 60) 0 0,
                 setHours tzo now' (endMinutes div 60) (jsRem endMinutes 60) 59 999))
          else if d = D3h then
            (let startMinutes = (n - 1) * 30; endMinutes = n * 30 - 1
             in (setHours tzo now' (startMinutes div 60) (jsRem startMinutes 60) 0 0,
                 setHours tzo now' (endMinutes div 60) (jsRem endMinutes 60) 59 999))
          else if d = D6h then
            (let startHour = n - 1; endHour = n - 1
             in (setHours tzo now' startHour 0 0 0, setHours tzo now' endHour 59 59 999))
          else if d = D24h then
            (let startHour = (n - 1) * 3; endHour = n * 3 - 1
             in (setHours tzo now' startHour 0 0 0, setHours tzo now' endHour 59 59 999))
          else if d = D48h then
            (let startHour = (n - 1) * 6; endHour = n * 6 - 1
             in (setHours tzo now' startHour 0 0 0, setHours tzo now' endHour 59 59 999))
          else if d = D1w then
            (let start = setHours tzo
                           (setDate tzo now' (getDate tzo now' - getDay tzo now' + n - 1))
                           0 0 0 0;
                 end' = setMilliseconds tzo (setDate tzo start (getDate tzo start + 1)) (- 1)
             in (start, end'))
          else if d = D1m then
            (let start = setDate tzo (newDate tzo (getFullYear tzo now') (getMonth tzo now') 1)
                           ((n - 1) * 7 + 1);
                 end' = setMilliseconds tzo (setDate tzo start (getDate tzo start + 7)) (- 1)
             in (start, end'))
          else if d = D3m \<or> d = D6m then
            (let start = newDate tzo (getFullYear tzo now') (n - 1) 1;
                 end' = setMilliseconds tzo (setMonth tzo start (getMonth tzo start + 1)) (- 1)
             in (start, end'))
          else if d = D1y then
            (let startMonth = (n - 1) * 3;
                 start = newDate tzo (getFullYear tzo now') startMonth 1;
                 end' = setMilliseconds tzo (setMonth tzo start (getMonth tzo start + 3)) (- 1)
             in (start, end'))
          else (now', now'))"



section \<open>Lock gate (slot-service.ts)\<close>

definition LOCK_BEFORE_START_MINUTES :: int where
  "LOCK_BEFORE_START_MINUTES = 5"

text \<open>
  isSlotLocked and getSlotLockStatus at the clock reading \<open>clock\<close>: their own call of
  getCurrentCESTTime and the one inside getSlotTimes read the same instant.
\<close>

definition isSlotLocked :: "int \<Rightarrow> instant \<Rightarrow> DurationKey \<Rightarrow> int \<Rightarrow> bool" where
  "isSlotLocked tzo clock d n =
     (let now' = getCurrentCESTTime clock;
          slotTimes = getSlotTimes tzo (getCurrentCESTTime clock) d n;
          timeUntilStart = fst slotTimes - now'
      in timeUntilStart \<le> LOCK_BEFORE_START_MINUTES * 60 * 1000)"

record lock_status =
  ls_isLocked :: bool
  ls_timeUntilStart :: int
  ls_timeUntilUnlock :: int

definition getSlotLockStatus :: "int \<Rightarrow> instant \<Rightarrow> DurationKey \<Rightarrow> int \<Rightarrow> lock_status" where
  "getSlotLockStatus tzo clock d n =
     (let now' = getCurrentCESTTime clock;
          slotTimes = getSlotTimes tzo (getCurrentCESTTime clock) d n;
          timeUntilStart = fst slotTimes - now';
          timeUntilUnlock = timeUntilStart - LOCK_BEFORE_START_MINUTES * 60 * 1000
      in \<lparr>ls_isLocked = (timeUntilStart \<le> LOCK_BEFORE_START_MINUTES * 60 * 1000),
          ls_timeUntilStart = max 0 timeUntilStart,
          ls_timeUntilUnlock = max 0 timeUntilUnlock\<rparr>)"

section \<open>Evaluation (prediction-service.ts)\<close>

text \<open>JavaScript truthiness of a \<open>number | null\<close>: \<open>null\<close> and \<open>0\<close> are falsy.\<close>

definition truthy :: "real option \<Rightarrow> bool" where
  "truthy p = (case p of None \<Rightarrow> False | Some x \<Rightarrow> x \<noteq> 0)"

text \<open>\<open>a || b\<close> on such values.\<close>

definition jsOr :: "real option \<Rightarrow> real option \<Rightarrow> real option" where
  "jsOr a b = (if truthy a then a else b)"

text \<open>The correctness rule of evaluatePrediction.\<close>

definition isCorrectFor :: "direction \<Rightarrow> real \<Rightarrow> real \<Rightarrow> bool" where
  "isCorrectFor dir startPriceNum endPrice =
     (case dir of Up \<Rightarrow> endPrice > startPriceNum | Down \<Rightarrow> endPrice < startPriceNum)"

text \<open>
  \<open>Math.abs((endPrice - startPriceNum) / startPriceNum * 100)\<close>. A JavaScript division
  by zero gives an infinity or NaN, which no comparison \<open>\<le>\<close> accepts: \<open>None\<close> here.
\<close>

definition priceChangePercent :: "real \<Rightarrow> real \<Rightarrow> real option" where
  "priceChangePercent startPriceNum endPrice =
     (if startPriceNum = 0 then None
      else Some \<bar>(endPrice - startPriceNum) / startPriceNum * 100\<bar>)"

definition accuracyBonus :: "real option \<Rightarrow> int" where
  "accuracyBonus pct = (case pct of
      None \<Rightarrow> 0
    | Some c \<Rightarrow> if c \<le> 0.1 then 10 else if c \<le> 0.5 then 5 else if c \<le> 1.0 then 2 else 0)"

text \<open>The points of evaluatePrediction, from the slot's base points.\<close>

definition calcPoints :: "int \<Rightarrow> bool \<Rightarrow> real \<Rightarrow> real \<Rightarrow> int" where
  "calcPoints basePoints correct startPriceNum endPrice =
     (if correct then basePoints + accuracyBonus (priceChangePercent startPriceNum endPrice)
      else - max 1 (basePoints div 2))"

definition evaluatePrediction :: "env \<Rightarrow> db \<Rightarrow> string \<Rightarrow> (error + eval_result) \<times> db" where
  "evaluatePrediction e s predictionId =
    (case find (\<lambda>p. predId p = predictionId) (predictions s) of
       None \<Rightarrow> (Inl PredictionNotFound, s)
     | Some pr \<Rightarrow>
       if status pr \<noteq> Active then (Inl PredictionNotActive, s)
       else (case find (\<lambda>a. assetIdent a = assetId pr) (assets s) of
         None \<Rightarrow> (Inl AssetNotFound, s)
       | Some a \<Rightarrow>
         let liveEndPrice = getLiveAssetPrice e (symbol a) in
         if \<not> truthy liveEndPrice \<and> \<not> truthy (getAssetPrice e (symbol a))
         then (Inl EndPriceUnavailable, s)
         else (case jsOr liveEndPrice (getAssetPrice e (symbol a)) of
           None \<Rightarrow> (Inl EndPriceUnavailable, s)
         | Some endPrice \<Rightarrow>
           if endPrice = 0 then (Inl EndPriceUnavailable, s)
           else (case priceStart pr of
             None \<Rightarrow> (Inl StartPriceUnavailable, s)
           | Some startPriceNum \<Rightarrow>
             let correct = isCorrectFor (direction pr) startPriceNum endPrice;
                 basePoints = getPointsForSlot (duration pr) (slotNumber pr);
                 awarded = calcPoints basePoints correct startPriceNum endPrice;
                 s1 = s\<lparr>predictions :=
                        map (\<lambda>p. if predId p = predictionId
                                  then p\<lparr>status := Evaluated,
                                         result := (if correct then Correct else Incorrect),
                                         pointsAwarded := Some awarded,
                                         priceEnd := Some endPrice,
                                         evaluatedAt := Some (now e)\<rparr>
                                  else p) (predictions s)\<rparr>;
                 s2 = (case find (\<lambda>q. profileUserId q = userId pr) (userProfiles s1) of
                         None \<Rightarrow> s1
                       | Some profile \<Rightarrow>
                           s1\<lparr>userProfiles :=
                                map (\<lambda>q. if profileUserId q = userId pr
                                          then q\<lparr>correctPredictions :=
                                                   correctPredictions profile
                                                     + (if correct then 1 else 0),
                                                 totalPredictions := totalPredictions profile + 1,
                                                 monthlyScore := monthlyScore profile + awarded,
                                                 totalScore := totalScore profile + awarded\<rparr>
                                          else q) (userProfiles s1)\<rparr>)
             in (Inr \<lparr>r_predictionId = predictionId, r_isCorrect = correct,
                      r_pointsAwarded = awarded, r_startPrice = startPriceNum,
                      r_endPrice = endPrice\<rparr>, s2)))))"

text \<open>
  evaluateExpiredPredictions: every active prediction whose expiration is before now is
  evaluated in turn; an error of one evaluation is caught and logged, and the loop goes on
  with the store as that call left it. One clock reading and one oracle serve the sweep.
\<close>

definition evaluateExpiredPredictions :: "env \<Rightarrow> db \<Rightarrow> db" where
  "evaluateExpiredPredictions e s =
     foldl (\<lambda>s' p. snd (evaluatePrediction e s' (predId p))) s
       (filter (\<lambda>p. status p = Active \<and> timestampExpiration p < now e) (predictions s))"

section \<open>Manual evaluation (the admin route of the routes file)\<close>

definition parseResult :: "string option \<Rightarrow> pred_result option" where
  "parseResult r = (case r of
      None \<Rightarrow> None
    | Some x \<Rightarrow> if x = ''correct'' then Some Correct
               else if x = ''incorrect'' then Some Incorrect
               else if x = ''pending'' then Some Pending
               else None)"

text \<open>
  The handler of \<open>POST /admin/predictions/:id/evaluate\<close>, after the admin middleware.
  \<open>Inl InvalidResultValue\<close> is the reply 400, \<open>Inl PredictionNotFound\<close> the reply 404.
  \<open>pointsAwarded || 0\<close> is 0 for an absent or zero value; \<open>priceStart ? ... : pred.priceStart\<close>
  keeps the stored price for an absent or zero value. The update of userProfiles is an SQL
  increment of every row of the user.
\<close>

definition adminEvaluate :: "env \<Rightarrow> db \<Rightarrow> string \<Rightarrow> admin_body \<Rightarrow> (error + unit) \<times> db" where
  "adminEvaluate e s ident body =
    (case parseResult (b_result body) of
       None \<Rightarrow> (Inl InvalidResultValue, s)
     | Some res \<Rightarrow>
       (case find (\<lambda>p. predId p = ident) (predictions s) of
          None \<Rightarrow> (Inl PredictionNotFound, s)
        | Some pred \<Rightarrow>
          let s1 = s\<lparr>predictions :=
                     map (\<lambda>p. if predId p = ident
                               then p\<lparr>status := Evaluated,
                                      result := res,
                                      pointsAwarded :=
                                        Some (case b_pointsAwarded body of None \<Rightarrow> 0 | Some n \<Rightarrow> n),
                                      priceStart := (if truthy (b_priceStart body)
                                                     then b_priceStart body else priceStart pred),
                                      priceEnd := (if truthy (b_priceEnd body)
                                                   then b_priceEnd body else priceEnd pred),
                                      evaluatedAt := Some (now e)\<rparr>
                               else p) (predictions s)\<rparr>;
              s2 = (case b_pointsAwarded body of
                      None \<Rightarrow> s1
                    | Some n \<Rightarrow>
                        if Some n \<noteq> pointsAwarded pred
                        then let pointsDiff =
                                   n - (case pointsAwarded pred of None \<Rightarrow> 0 | Some k \<Rightarrow> k)
                             in s1\<lparr>userProfiles :=
                                  map (\<lambda>q. if profileUserId q = userId pred
                                            then q\<lparr>monthlyScore := monthlyScore q + pointsDiff,
                                                   totalScore := totalScore q + pointsDiff,
                                                   totalPredictions := totalPredictions q + 1,
                                                   correctPredictions :=
                                                     correctPredictions q
                                                       + (if res = Correct then 1 else 0)\<rparr>
                                            else q) (userProfiles s1)\<rparr>
                        else s1)
          in (Inr (), s2)))"

section \<open>Creation (prediction-service.ts)\<close>

text \<open>
  createPrediction; \<open>insertedRow\<close> is the row of its \<open>db.insert(predictions)\<close>. The
  inserted row takes its identifier from the database (\<open>freshId\<close>) and the columns the
  insert does not set from the table's defaults.

  Modelled from the spec: the column defaults of the predictions and userProfiles tables
  (shared/schema is not among the sources): a new prediction has status active, result
  pending, no awarded points, no end price and no evaluation time; the counters of a new
  profile row that the insert does not set are 0.

  The update of the profile is in a try/catch that only logs; the model's store cannot
  fail, so that branch does not appear.
\<close>

definition insertedRow ::
  "env \<Rightarrow> create_input \<Rightarrow> asset \<Rightarrow> active_slot \<Rightarrow> real \<Rightarrow> prediction" where
  "insertedRow e inp a activeSlot currentPrice =
     \<lparr>predId = freshId e, userId = in_userId inp, assetId = assetIdent a,
      direction = in_direction inp, duration = in_duration inp,
      slotNumber = as_slotNumber activeSlot,
      slotStart = as_slotStart activeSlot,
      slotEnd = as_slotEnd activeSlot,
      timestampCreated = now e,
      timestampExpiration = as_slotEnd activeSlot,
      status = Active, result = Pending, pointsAwarded = None,
      priceStart = Some currentPrice, priceEnd = None,
      evaluatedAt = None\<rparr>"

definition createPrediction :: "env \<Rightarrow> db \<Rightarrow> create_input \<Rightarrow> (error + prediction) \<times> db" where
  "createPrediction e s inp =
    (case find (\<lambda>u. userIdent u = in_userId inp) (users s) of
       None \<Rightarrow> (Inl UserNotFound, s)
     | Some u \<Rightarrow>
       if \<not> emailVerified u then (Inl EmailVerificationRequired, s)
       else (case find (\<lambda>a. symbol a = in_assetSymbol inp) (assets s) of
         None \<Rightarrow> (Inl AssetNotFound, s)
       | Some a \<Rightarrow>
         if \<not> isActive a then (Inl AssetNotAvailable, s)
         else
           let activeSlot = getCurrentActiveSlot e (in_duration inp) in
           if \<not> isSlotValid e (in_duration inp) (as_slotNumber activeSlot)
           then (Inl SlotNotValid, s)
           else (case find (\<lambda>p. userId p = in_userId inp \<and> assetId p = assetIdent a
                                \<and> duration p = in_duration inp
                                \<and> slotNumber p = as_slotNumber activeSlot
                                \<and> slotStart p = as_slotStart activeSlot) (predictions s) of
             Some existingPrediction \<Rightarrow> (Inl AlreadyHavePrediction, s)
           | None \<Rightarrow>
             if \<not> isWithinActiveSlot e (now e) (in_duration inp) then (Inl NoActiveSlot, s)
             else
               let livePrice = getLiveAssetPrice e (in_assetSymbol inp) in
               if \<not> truthy livePrice \<and> \<not> truthy (getAssetPrice e (in_assetSymbol inp))
               then (Inl CurrentPriceUnavailable, s)
               else (case jsOr livePrice (getAssetPrice e (in_assetSymbol inp)) of
                 None \<Rightarrow> (Inl CurrentPriceUnavailable, s)
               | Some currentPrice \<Rightarrow>
                 if currentPrice = 0 then (Inl CurrentPriceUnavailable, s)
                 else
                   let prediction = insertedRow e inp a activeSlot currentPrice;
                       s1 = s\<lparr>predictions := predictions s @ [prediction]\<rparr>;
                       s2 = (case find (\<lambda>q. profileUserId q = in_userId inp)
                                    (userProfiles s1) of
                               None \<Rightarrow>
                                 s1\<lparr>userProfiles := userProfiles s1 @
                                      [\<lparr>profileUserId = in_userId inp, totalPredictions = 1,
                                        correctPredictions = 0, monthlyScore = 0,
                                        totalScore = 0\<rparr>]\<rparr>
                             | Some existingProfile \<Rightarrow>
                                 s1\<lparr>userProfiles :=
                                      map (\<lambda>q. if profileUserId q = in_userId inp
                                                then q\<lparr>totalPredictions :=
                                                         totalPredictions q + 1\<rparr>
                                                else q) (userProfiles s1)\<rparr>)
                   in (Inr prediction, s2)))))"

section \<open>Columns and keys of a prediction row\<close>

text \<open>
  The columns of a prediction row other than \<open>priceStart\<close> and the five that the
  update of evaluatePrediction sets.
\<close>

definition keptColumns ::
  "prediction \<Rightarrow> string \<times> string \<times> string \<times> direction \<times> DurationKey \<times> int
     \<times> instant \<times> instant \<times> instant \<times> instant" where
  "keptColumns p = (predId p, userId p, assetId p, direction p, duration p, slotNumber p,
                    slotStart p, slotEnd p, timestampCreated p, timestampExpiration p)"

text \<open>The tuple that the duplicate check of createPrediction compares.\<close>

definition slotKey :: "prediction \<Rightarrow> string \<times> string \<times> DurationKey \<times> int \<times> instant" where
  "slotKey p = (userId p, assetId p, duration p, slotNumber p, slotStart p)"

section \<open>Example data\<close>

text \<open>
  A small store and environment for the concrete evaluations below: one verified user, one
  active asset, a list of predictions and of profile rows; an oracle whose live price is the
  given one and whose cached price is absent. The answers of lib/slots in the example
  environment follow the functions of the same names in slot-service.ts: the current slot
  is the given one, a slot number is valid when it is not below the current one, and the
  clock is within the active slot when it lies between the slot's start and end.
\<close>

definition ex_user :: user where
  "ex_user = \<lparr>userIdent = ''u1'', emailVerified = True\<rparr>"

definition ex_asset :: asset where
  "ex_asset = \<lparr>assetIdent = ''a1'', symbol = ''BTC'', isActive = True\<rparr>"

definition ex_prediction :: "DurationKey \<Rightarrow> int \<Rightarrow> direction \<Rightarrow> instant \<Rightarrow> instant \<Rightarrow> prediction" where
  "ex_prediction d n dir st en =
     \<lparr>predId = ''p1'', userId = ''u1'', assetId = ''a1'', direction = dir, duration = d,
      slotNumber = n, slotStart = st, slotEnd = en, timestampCreated = st,
      timestampExpiration = en,
      status = Active, result = Pending, pointsAwarded = None, priceStart = Some 100,
      priceEnd = None, evaluatedAt = None\<rparr>"

definition ex_profile :: user_profile where
  "ex_profile = \<lparr>profileUserId = ''u1'', totalPredictions = 1, correctPredictions = 0,
                 monthlyScore = 0, totalScore = 0\<rparr>"

definition ex_db :: "prediction list \<Rightarrow> user_profile list \<Rightarrow> db" where
  "ex_db ps profs = \<lparr>users = [ex_user], assets = [ex_asset], predictions = ps,
                     userProfiles = profs\<rparr>"

definition ex_env :: "instant \<Rightarrow> real option \<Rightarrow> active_slot \<Rightarrow> env" where
  "ex_env t price sl =
     \<lparr>now = t, getLiveAssetPrice = (\<lambda>_. price), getAssetPrice = (\<lambda>_. None),
      freshId = ''p2'', getCurrentActiveSlot = (\<lambda>_. sl),
      isSlotValid = (\<lambda>_ n. as_slotNumber sl \<le> n),
      isWithinActiveSlot = (\<lambda>_ _. as_slotStart sl \<le> t \<and> t \<le> as_slotEnd sl)\<rparr>"

definition ex_slot :: active_slot where
  "ex_slot = \<lparr>as_slotNumber = 1, as_slotStart = 0, as_slotEnd = 899999\<rparr>"

definition ex_body :: admin_body where
  "ex_body = \<lparr>b_result = Some ''correct'', b_pointsAwarded = Some 10,
              b_priceStart = Some 5, b_priceEnd = Some 6\<rparr>"

definition ex_input :: create_input where
  "ex_input = \<lparr>in_userId = ''u1'', in_assetSymbol = ''BTC'', in_direction = Up,
               in_duration = D1h\<rparr>"

text \<open>
  A zone for the concrete evaluations of getSlotForDate: the constant offset +01:00
  (Berlin's winter time), its calendar operations written with the Date model above.
\<close>

definition pad2 :: "int \<Rightarrow> string" where
  "pad2 n = [''0123456789'' ! nat (n div 10 mod 10), ''0123456789'' ! nat (n mod 10)]"

definition ex_zone :: zone where
  "ex_zone =
     \<lparr>startOfDay = localMidnight (- 60),
      startOfWeek = (\<lambda>t. localMidnight (- 60) t
                          - ((localTime (- 60) t div msPerDay + 3) mod 7) * msPerDay),
      startOfMonth = (\<lambda>t. localMidnight (- 60) t - (getDate (- 60) t - 1) * msPerDay),
      startOfYear = (\<lambda>t. newDate (- 60) (getFullYear (- 60) t) 0 1),
      monthOf = (\<lambda>t. getMonth (- 60) t + 1),
      setMonthDay = (\<lambda>t m d. newDate (- 60) (getFullYear (- 60) t) (m - 1) d
                              + localTime (- 60) t mod msPerDay),
      toFormatHHmm = (\<lambda>t. pad2 (localTime (- 60) t mod msPerDay div 3600000) @ '':''
                           @ pad2 (localTime (- 60) t mod msPerDay div 60000 mod 60))\<rparr>"


lemmas ex_defs = ex_user_def ex_asset_def ex_prediction_def ex_profile_def ex_db_def
  ex_env_def ex_slot_def ex_body_def ex_input_def

section \<open>Properties of evaluatePrediction\<close>

lemma evaluatePrediction_Inr:
  assumes "evaluatePrediction e s pid = (Inr out, s')"
  shows "\<exists>pr a endPrice sp.
      find (\<lambda>p. predId p = pid) (predictions s) = Some pr \<and> status pr = Active
    \<and> find (\<lambda>a. assetIdent a = assetId pr) (assets s) = Some a
    \<and> jsOr (getLiveAssetPrice e (symbol a)) (getAssetPrice e (symbol a)) = Some endPrice
    \<and> endPrice \<noteq> 0 \<and> priceStart pr = Some sp
    \<and> r_predictionId out = pid
    \<and> r_isCorrect out = isCorrectFor (direction pr) sp endPrice
    \<and> r_pointsAwarded out = calcPoints (getPointsForSlot (duration pr) (slotNumber pr))
          (isCorrectFor (direction pr) sp endPrice) sp endPrice
    \<and> r_startPrice out = sp \<and> r_endPrice out = endPrice
    \<and> predictions s' = map (\<lambda>p. if predId p = pid
          then p\<lparr>status := Evaluated,
                 result := (if r_isCorrect out then Correct else Incorrect),
                 pointsAwarded := Some (r_pointsAwarded out),
                 priceEnd := Some endPrice,
                 evaluatedAt := Some (now e)\<rparr> else p) (predictions s)
    \<and> users s' = users s \<and> assets s' = assets s"
  using assms unfolding evaluatePrediction_def
  by (auto simp: Let_def split: option.splits if_splits)

lemma find_map_update:
  assumes "find (\<lambda>p. predId p = pid) xs = Some pr" and "\<And>p. predId (f p) = predId p"
  shows "find (\<lambda>p. predId p = pid) (map (\<lambda>p. if predId p = pid then f p else p) xs) = Some (f pr)"
  using assms by (induction xs) (auto split: if_splits)




text \<open>
  Claim C2. An incorrect prediction is awarded \<open>- max 1 (basePoints div 2)\<close>, which is
  negative, never zero; for a slot number within the duration's range the base points are
  the entry of the duration's point schedule for that slot.
\<close>

theorem C2_penalty:
  assumes "evaluatePrediction e s pid = (Inr out, s')"
    and "find (\<lambda>p. predId p = pid) (predictions s) = Some pr"
    and "\<not> r_isCorrect out"
  shows "r_pointsAwarded out = - max 1 (getPointsForSlot (duration pr) (slotNumber pr) div 2)
       \<and> r_pointsAwarded out < 0
       \<and> (\<forall>c. SLOT_CONFIGURATIONS (duration pr) = Some c \<and> 1 \<le> slotNumber pr
               \<and> slotNumber pr \<le> intervals c
            \<longrightarrow> r_pointsAwarded out = - max 1 ((points c ! nat (slotNumber pr - 1)) div 2))
       \<and> (\<exists>p'. find (\<lambda>p. predId p = pid) (predictions s') = Some p'
               \<and> pointsAwarded p' = Some (r_pointsAwarded out) \<and> result p' = Incorrect)"
proof -
  from evaluatePrediction_Inr[OF assms(1)] assms(2)
  obtain endPrice sp where
    c: "r_isCorrect out = isCorrectFor (direction pr) sp endPrice"
    and pts: "r_pointsAwarded out = calcPoints (getPointsForSlot (duration pr) (slotNumber pr))
          (isCorrectFor (direction pr) sp endPrice) sp endPrice"
    and upd: "predictions s' = map (\<lambda>p. if predId p = pid
          then p\<lparr>status := Evaluated,
                 result := (if r_isCorrect out then Correct else Incorrect),
                 pointsAwarded := Some (r_pointsAwarded out),
                 priceEnd := Some endPrice,
                 evaluatedAt := Some (now e)\<rparr> else p) (predictions s)"
    by auto
  have 1: "r_pointsAwarded out = - max 1 (getPointsForSlot (duration pr) (slotNumber pr) div 2)"
    using assms(3) unfolding pts c calcPoints_def by simp
  have 2: "r_pointsAwarded out < 0" unfolding 1 by simp
  have 3: "\<forall>c. SLOT_CONFIGURATIONS (duration pr) = Some c \<and> 1 \<le> slotNumber pr
               \<and> slotNumber pr \<le> intervals c
            \<longrightarrow> r_pointsAwarded out = - max 1 ((points c ! nat (slotNumber pr - 1)) div 2)"
    unfolding 1 getPointsForSlot_def
    by (cases "duration pr") (auto simp: SLOT_CONFIGURATIONS_def)
  have 4: "\<exists>p'. find (\<lambda>p. predId p = pid) (predictions s') = Some p'
               \<and> pointsAwarded p' = Some (r_pointsAwarded out) \<and> result p' = Incorrect"
    unfolding upd using assms(3) find_map_update[OF assms(2), of "\<lambda>p. p\<lparr>status := Evaluated,
                 result := (if r_isCorrect out then Correct else Incorrect),
                 pointsAwarded := Some (r_pointsAwarded out),
                 priceEnd := Some endPrice,
                 evaluatedAt := Some (now e)\<rparr>"] by simp
  from 1 2 3 4 show ?thesis by blast
qed

text \<open>Duration 24h, slot 8 (base points 1): an incorrect prediction is awarded -1.\<close>

theorem C2_penalty_witness:
  "fst (evaluatePrediction (ex_env 86400000 (Some 99) ex_slot)
          (ex_db [ex_prediction D24h 8 Up 75600000 86399999] [ex_profile]) ''p1'')
     = Inr \<lparr>r_predictionId = ''p1'', r_isCorrect = False, r_pointsAwarded = - 1,
            r_startPrice = 100, r_endPrice = 99\<rparr>
   \<and> - max 1 (getPointsForSlot D24h 8 div 2) = - 1"
proof -
  let ?e = "ex_env 86400000 (Some 99) ex_slot"
  let ?p = "ex_prediction D24h 8 Up 75600000 86399999"
  let ?s = "ex_db [?p] [ex_profile]"
  let ?out = "\<lparr>r_predictionId = ''p1'', r_isCorrect = False, r_pointsAwarded = - 1,
            r_startPrice = 100, r_endPrice = 99\<rparr>"
  have f: "fst (evaluatePrediction ?e ?s ''p1'') = Inr ?out"
    by (simp add: evaluatePrediction_def ex_defs truthy_def jsOr_def isCorrectFor_def
        calcPoints_def getPointsForSlot_def SLOT_CONFIGURATIONS_def Let_def)
  then have ev: "evaluatePrediction ?e ?s ''p1'' = (Inr ?out, snd (evaluatePrediction ?e ?s ''p1''))"
    by (simp add: prod_eq_iff)
  have h2: "find (\<lambda>p. predId p = ''p1'') (predictions ?s) = Some ?p"
    by (simp add: ex_defs)
  have h3: "\<not> r_isCorrect ?out" by simp
  from C2_penalty[OF ev h2 h3] f show ?thesis
    by (simp add: ex_defs)
qed

lemma evaluatePrediction_not_active:
  assumes "find (\<lambda>p. predId p = pid) (predictions s) = Some pr" and "status pr \<noteq> Active"
  shows "evaluatePrediction e s pid = (Inl PredictionNotActive, s)"
  using assms by (simp add: evaluatePrediction_def)

lemma evaluatePrediction_Inl:
  assumes "fst (evaluatePrediction e s pid) = Inl err"
  shows "snd (evaluatePrediction e s pid) = s"
  using assms unfolding evaluatePrediction_def
  by (auto simp: Let_def split: option.splits if_splits)

lemma evaluatePrediction_cases:
  "snd (evaluatePrediction e s pid) = s
   \<or> (\<exists>out. evaluatePrediction e s pid = (Inr out, snd (evaluatePrediction e s pid)))"
proof (cases "fst (evaluatePrediction e s pid)")
  case (Inl a)
  then show ?thesis using evaluatePrediction_Inl by blast
next
  case (Inr b)
  then show ?thesis by (metis prod.collapse)
qed

lemma evaluatePrediction_twice:
  assumes "evaluatePrediction e s pid = (Inr out, s')"
  shows "evaluatePrediction e' s' pid = (Inl PredictionNotActive, s')"
proof -
  from evaluatePrediction_Inr[OF assms] obtain pr endPrice where
    f: "find (\<lambda>p. predId p = pid) (predictions s) = Some pr"
    and upd: "predictions s' = map (\<lambda>p. if predId p = pid
          then p\<lparr>status := Evaluated,
                 result := (if r_isCorrect out then Correct else Incorrect),
                 pointsAwarded := Some (r_pointsAwarded out),
                 priceEnd := Some endPrice,
                 evaluatedAt := Some (now e)\<rparr> else p) (predictions s)"
    by auto
  let ?f = "\<lambda>p. p\<lparr>status := Evaluated,
                 result := (if r_isCorrect out then Correct else Incorrect),
                 pointsAwarded := Some (r_pointsAwarded out),
                 priceEnd := Some endPrice,
                 evaluatedAt := Some (now e)\<rparr>"
  have "find (\<lambda>p. predId p = pid) (predictions s') = Some (?f pr)"
    unfolding upd using find_map_update[OF f, of ?f] by simp
  moreover have "status (?f pr) \<noteq> Active" by simp
  ultimately show ?thesis by (rule evaluatePrediction_not_active)
qed

lemma find_Some_distinct:
  assumes "find (\<lambda>p. predId p = pid) xs = Some pr" and "distinct (map predId xs)"
    and "p \<in> set xs" and "predId p = pid"
  shows "p = pr"
proof -
  from assms(1) have "pr \<in> set xs" "predId pr = pid"
    by (auto simp: find_Some_iff)
  with assms(2,3,4) show ?thesis
    by (metis distinct_map inj_onD)
qed

lemma evaluatePrediction_status_steps:
  assumes "distinct (map predId (predictions s))"
  shows "list_all2 (\<lambda>p p'. status p' = status p \<or> (status p = Active \<and> status p' = Evaluated))
           (predictions s) (predictions (snd (evaluatePrediction e s pid)))"
proof -
  from evaluatePrediction_cases[of e s pid] show ?thesis
  proof
    assume "snd (evaluatePrediction e s pid) = s"
    then show ?thesis by (simp add: list_all2_same)
  next
    assume "\<exists>out. evaluatePrediction e s pid = (Inr out, snd (evaluatePrediction e s pid))"
    then obtain out where ev: "evaluatePrediction e s pid = (Inr out, snd (evaluatePrediction e s pid))"
      by blast
    from evaluatePrediction_Inr[OF ev] obtain pr endPrice where
      f: "find (\<lambda>p. predId p = pid) (predictions s) = Some pr" and act: "status pr = Active"
      and upd: "predictions (snd (evaluatePrediction e s pid)) = map (\<lambda>p. if predId p = pid
          then p\<lparr>status := Evaluated,
                 result := (if r_isCorrect out then Correct else Incorrect),
                 pointsAwarded := Some (r_pointsAwarded out),
                 priceEnd := Some endPrice,
                 evaluatedAt := Some (now e)\<rparr> else p) (predictions s)"
      by auto
    have "\<And>p. p \<in> set (predictions s) \<Longrightarrow> predId p = pid \<Longrightarrow> status p = Active"
      using find_Some_distinct[OF f assms] act by blast
    then show ?thesis unfolding upd
      by (simp add: list_all2_map2 list_all2_same)
  qed
qed

lemma adminEvaluate_status_steps:
  "list_all2 (\<lambda>p p'. status p' = status p \<or> status p' = Evaluated)
     (predictions s) (predictions (snd (adminEvaluate e1 s ident body)))"
  unfolding adminEvaluate_def
  by (auto simp: Let_def list_all2_map2 list_all2_same split: option.splits)

section \<open>The one-way status transition\<close>

text \<open>
  Claim C7. evaluatePrediction on a prediction whose status is not active fails with
  \<open>PredictionNotActive\<close> (the spec's NotActiveError) and leaves the store as it was; so
  after a successful evaluation any further evaluation of the same prediction, with any
  clock and prices, fails that way and changes neither the prediction nor the profile. With
  identifiers unique, the only status change evaluatePrediction makes to any row is from
  active to evaluated. The admin route, the only other writer of the column, changes a
  status to evaluated or not at all.
\<close>

theorem C7_not_active:
  "(find (\<lambda>p. predId p = pid0) (predictions s0) = Some pr0 \<and> status pr0 \<noteq> Active
      \<longrightarrow> evaluatePrediction e0 s0 pid0 = (Inl PredictionNotActive, s0))
 \<and> (evaluatePrediction e s pid = (Inr out, s')
      \<longrightarrow> evaluatePrediction e' s' pid = (Inl PredictionNotActive, s'))
 \<and> (distinct (map predId (predictions s))
      \<longrightarrow> list_all2 (\<lambda>p p'. status p' = status p \<or> (status p = Active \<and> status p' = Evaluated))
            (predictions s) (predictions (snd (evaluatePrediction e s pid))))
 \<and> list_all2 (\<lambda>p p'. status p' = status p \<or> status p' = Evaluated)
      (predictions s) (predictions (snd (adminEvaluate e1 s ident body)))"
  using evaluatePrediction_not_active evaluatePrediction_twice evaluatePrediction_status_steps
    adminEvaluate_status_steps
  by blast

text \<open>
  The 1h prediction of the example store is evaluated once (20 points); the second run,
  a minute later at another price, fails and returns the store of the first run.
\<close>

theorem C7_not_active_witness:
  "fst (evaluatePrediction (ex_env 900000 (Some 100.05) ex_slot)
          (ex_db [ex_prediction D1h 1 Up 0 899999] [ex_profile]) ''p1'')
     = Inr \<lparr>r_predictionId = ''p1'', r_isCorrect = True, r_pointsAwarded = 20,
            r_startPrice = 100, r_endPrice = 100.05\<rparr>
   \<and> evaluatePrediction (ex_env 960000 (Some 101) ex_slot)
        (snd (evaluatePrediction (ex_env 900000 (Some 100.05) ex_slot)
               (ex_db [ex_prediction D1h 1 Up 0 899999] [ex_profile]) ''p1'')) ''p1''
     = (Inl PredictionNotActive,
        snd (evaluatePrediction (ex_env 900000 (Some 100.05) ex_slot)
               (ex_db [ex_prediction D1h 1 Up 0 899999] [ex_profile]) ''p1''))
   \<and> map status (predictions (snd (evaluatePrediction (ex_env 900000 (Some 100.05) ex_slot)
               (ex_db [ex_prediction D1h 1 Up 0 899999] [ex_profile]) ''p1''))) = [Evaluated]"
proof -
  let ?e = "ex_env 900000 (Some 100.05) ex_slot"
  let ?s = "ex_db [ex_prediction D1h 1 Up 0 899999] [ex_profile]"
  let ?out = "\<lparr>r_predictionId = ''p1'', r_isCorrect = True, r_pointsAwarded = 20,
            r_startPrice = 100, r_endPrice = 100.05\<rparr>"
  let ?s' = "snd (evaluatePrediction ?e ?s ''p1'')"
  have f: "fst (evaluatePrediction ?e ?s ''p1'') = Inr ?out"
    by (simp add: evaluatePrediction_def ex_defs truthy_def jsOr_def isCorrectFor_def
        calcPoints_def priceChangePercent_def accuracyBonus_def getPointsForSlot_def
        SLOT_CONFIGURATIONS_def Let_def)
  then have ev: "evaluatePrediction ?e ?s ''p1'' = (Inr ?out, ?s')"
    by (simp add: prod_eq_iff)
  have st: "map status (predictions ?s') = [Evaluated]"
    by (simp add: evaluatePrediction_def ex_defs truthy_def jsOr_def Let_def)
  from C7_not_active[of _ _ _ _ ?e ?s "''p1''" ?out ?s' "ex_env 960000 (Some 101) ex_slot"] ev
  have "evaluatePrediction (ex_env 960000 (Some 101) ex_slot) ?s' ''p1''
          = (Inl PredictionNotActive, ?s')" by blast
  with f st show ?thesis by blast
qed

section \<open>Evaluation without a profile row\<close>

text \<open>
  Claim C10. When the owner of an active prediction has no row in userProfiles (and the
  asset, a settlement price and the entry price are there), evaluatePrediction returns
  its outcome, the prediction row is evaluated and holds the result, the awarded points
  and the end price, and userProfiles is what it was: no score is updated, no error
  raised.
\<close>

theorem C10_missing_profile:
  assumes "find (\<lambda>p. predId p = pid) (predictions s) = Some pr"
    and "status pr = Active"
    and "find (\<lambda>a. assetIdent a = assetId pr) (assets s) = Some a"
    and "jsOr (getLiveAssetPrice e (symbol a)) (getAssetPrice e (symbol a)) = Some endPrice"
    and "endPrice \<noteq> 0"
    and "priceStart pr = Some sp"
    and "find (\<lambda>q. profileUserId q = userId pr) (userProfiles s) = None"
  shows "\<exists>out s'. evaluatePrediction e s pid = (Inr out, s')
      \<and> r_predictionId out = pid
      \<and> r_isCorrect out = isCorrectFor (direction pr) sp endPrice
      \<and> r_pointsAwarded out = calcPoints (getPointsForSlot (duration pr) (slotNumber pr))
                                 (r_isCorrect out) sp endPrice
      \<and> r_startPrice out = sp \<and> r_endPrice out = endPrice
      \<and> userProfiles s' = userProfiles s
      \<and> find (\<lambda>p. predId p = pid) (predictions s')
          = Some (pr\<lparr>status := Evaluated,
                     result := (if r_isCorrect out then Correct else Incorrect),
                     pointsAwarded := Some (r_pointsAwarded out),
                     priceEnd := Some endPrice,
                     evaluatedAt := Some (now e)\<rparr>)"
proof -
  let ?c = "isCorrectFor (direction pr) sp endPrice"
  let ?pts = "calcPoints (getPointsForSlot (duration pr) (slotNumber pr)) ?c sp endPrice"
  let ?f = "\<lambda>p. p\<lparr>status := Evaluated, result := (if ?c then Correct else Incorrect),
                    pointsAwarded := Some ?pts, priceEnd := Some endPrice,
                    evaluatedAt := Some (now e)\<rparr>"
  let ?s' = "s\<lparr>predictions := map (\<lambda>p. if predId p = pid then ?f p else p) (predictions s)\<rparr>"
  let ?out = "\<lparr>r_predictionId = pid, r_isCorrect = ?c, r_pointsAwarded = ?pts,
               r_startPrice = sp, r_endPrice = endPrice\<rparr>"
  have t: "truthy (getLiveAssetPrice e (symbol a)) \<or> truthy (getAssetPrice e (symbol a))"
    using assms(4,5) by (auto simp: jsOr_def truthy_def split: if_splits)
  have ev: "evaluatePrediction e s pid = (Inr ?out, ?s')"
    using assms t unfolding evaluatePrediction_def by (auto simp: Let_def)
  have fd: "find (\<lambda>p. predId p = pid) (predictions ?s') = Some (?f pr)"
    using find_map_update[OF assms(1), of ?f] by simp
  show ?thesis
    apply (rule exI[of _ ?out], rule exI[of _ ?s'])
    using ev fd by simp
qed

text \<open>The example prediction in a store with no profile rows.\<close>

theorem C10_missing_profile_witness:
  "find (\<lambda>q. profileUserId q = ''u1'')
      (userProfiles (ex_db [ex_prediction D1h 1 Up 0 899999] [])) = None
   \<and> (\<exists>out s'. evaluatePrediction (ex_env 900000 (Some 100.05) ex_slot)
                   (ex_db [ex_prediction D1h 1 Up 0 899999] []) ''p1'' = (Inr out, s')
        \<and> r_isCorrect out \<and> r_pointsAwarded out = 20 \<and> userProfiles s' = []
        \<and> map status (predictions s') = [Evaluated]
        \<and> map result (predictions s') = [Correct]
        \<and> map pointsAwarded (predictions s') = [Some 20]
        \<and> map priceEnd (predictions s') = [Some 100.05])"
proof -
  let ?e = "ex_env 900000 (Some 100.05) ex_slot"
  let ?p = "ex_prediction D1h 1 Up 0 899999"
  let ?s = "ex_db [?p] []"
  have h1: "find (\<lambda>p. predId p = ''p1'') (predictions ?s) = Some ?p" by (simp add: ex_defs)
  have h2: "status ?p = Active" by (simp add: ex_defs)
  have h3: "find (\<lambda>a. assetIdent a = assetId ?p) (assets ?s) = Some ex_asset"
    by (simp add: ex_defs)
  have h4: "jsOr (getLiveAssetPrice ?e (symbol ex_asset)) (getAssetPrice ?e (symbol ex_asset))
              = Some 100.05"
    by (simp add: ex_defs jsOr_def truthy_def)
  have h5: "(100.05::real) \<noteq> 0" by simp
  have h6: "priceStart ?p = Some 100" by (simp add: ex_defs)
  have h7: "find (\<lambda>q. profileUserId q = userId ?p) (userProfiles ?s) = None"
    by (simp add: ex_defs)
  have u: "userId ?p = ''u1''" by (simp add: ex_defs)
  from C10_missing_profile[OF h1 h2 h3 h4 h5 h6 h7]
  obtain out s' where ev: "evaluatePrediction ?e ?s ''p1'' = (Inr out, s')"
    and c: "r_isCorrect out = isCorrectFor (direction ?p) 100 100.05"
    and pts: "r_pointsAwarded out = calcPoints (getPointsForSlot (duration ?p) (slotNumber ?p))
                                 (r_isCorrect out) 100 100.05"
    and up: "userProfiles s' = userProfiles ?s"
    by blast
  have c': "r_isCorrect out" unfolding c by (simp add: ex_defs isCorrectFor_def)
  have pts': "r_pointsAwarded out = 20" unfolding pts using c'
    by (simp add: ex_defs calcPoints_def priceChangePercent_def accuracyBonus_def
        getPointsForSlot_def SLOT_CONFIGURATIONS_def)
  have up': "userProfiles s' = []" unfolding up by (simp add: ex_defs)
  have s': "s' = snd (evaluatePrediction ?e ?s ''p1'')" using ev by simp
  have rows: "map status (predictions s') = [Evaluated]
        \<and> map result (predictions s') = [Correct]
        \<and> map pointsAwarded (predictions s') = [Some 20]
        \<and> map priceEnd (predictions s') = [Some 100.05]"
    unfolding s'
    by (simp add: evaluatePrediction_def ex_defs truthy_def jsOr_def isCorrectFor_def
        calcPoints_def priceChangePercent_def accuracyBonus_def getPointsForSlot_def
        SLOT_CONFIGURATIONS_def Let_def)
  from h7 u ev c' pts' up' rows show ?thesis by auto
qed

section \<open>What evaluation leaves unchanged\<close>

lemma evaluatePrediction_frame:
  "map (\<lambda>p. (keptColumns p, priceStart p)) (predictions (snd (evaluatePrediction e s pid)))
     = map (\<lambda>p. (keptColumns p, priceStart p)) (predictions s)"
proof -
  from evaluatePrediction_cases[of e s pid] show ?thesis
  proof
    assume "snd (evaluatePrediction e s pid) = s"
    then show ?thesis by simp
  next
    assume "\<exists>out. evaluatePrediction e s pid = (Inr out, snd (evaluatePrediction e s pid))"
    then obtain out where ev: "evaluatePrediction e s pid = (Inr out, snd (evaluatePrediction e s pid))"
      by blast
    from evaluatePrediction_Inr[OF ev] obtain endPrice where
      upd: "predictions (snd (evaluatePrediction e s pid)) = map (\<lambda>p. if predId p = pid
          then p\<lparr>status := Evaluated,
                 result := (if r_isCorrect out then Correct else Incorrect),
                 pointsAwarded := Some (r_pointsAwarded out),
                 priceEnd := Some endPrice,
                 evaluatedAt := Some (now e)\<rparr> else p) (predictions s)"
      by auto
    show ?thesis unfolding upd by (simp add: keptColumns_def comp_def)
  qed
qed

lemma foldl_frame:
  assumes "\<And>s' p. g (f s' p) = g s'"
  shows "g (foldl f s xs) = g s"
  using assms by (induction xs arbitrary: s) simp_all

lemma evaluateExpiredPredictions_frame:
  "map (\<lambda>p. (keptColumns p, priceStart p)) (predictions (evaluateExpiredPredictions e s))
     = map (\<lambda>p. (keptColumns p, priceStart p)) (predictions s)"
  unfolding evaluateExpiredPredictions_def
  by (rule foldl_frame) (rule evaluatePrediction_frame)

lemma adminEvaluate_kept:
  "map keptColumns (predictions (snd (adminEvaluate e s pid body)))
     = map keptColumns (predictions s)"
  unfolding adminEvaluate_def
  by (auto simp: Let_def keptColumns_def comp_def split: option.splits)

lemma adminEvaluate_priceStart:
  assumes "\<not> truthy (b_priceStart body)" and "distinct (map predId (predictions s))"
  shows "map priceStart (predictions (snd (adminEvaluate e s pid body)))
     = map priceStart (predictions s)"
proof (cases "parseResult (b_result body)")
  case None
  then show ?thesis by (simp add: adminEvaluate_def)
next
  case (Some res)
  show ?thesis
  proof (cases "find (\<lambda>p. predId p = pid) (predictions s)")
    case None
    then show ?thesis using Some by (simp add: adminEvaluate_def)
  next
    case (Some pred)
    have same: "\<And>p. p \<in> set (predictions s) \<Longrightarrow> predId p = pid \<Longrightarrow> priceStart pred = priceStart p"
      using find_Some_distinct[OF Some assms(2)] by blast
    show ?thesis using Some \<open>parseResult (b_result body) = Some res\<close> assms(1) same
      unfolding adminEvaluate_def
      by (auto simp: Let_def comp_def split: option.splits)
  qed
qed

text \<open>
  Claim C9, as amended. evaluatePrediction and the periodic evaluator keep every row's
  identifier, user, asset, direction, duration, slot number, slot start, slot end, creation
  and expiration times and \<open>priceStart\<close>: they change only status, result, pointsAwarded,
  priceEnd and evaluatedAt, and add or remove no row. The admin route keeps the same columns
  except \<open>priceStart\<close>, which it keeps when the request carries no (non-zero)
  \<open>priceStart\<close> (identifiers being unique).
\<close>

theorem C9_frame:
  "map (\<lambda>p. (keptColumns p, priceStart p)) (predictions (snd (evaluatePrediction e s pid)))
     = map (\<lambda>p. (keptColumns p, priceStart p)) (predictions s)
 \<and> map (\<lambda>p. (keptColumns p, priceStart p)) (predictions (evaluateExpiredPredictions e s))
     = map (\<lambda>p. (keptColumns p, priceStart p)) (predictions s)
 \<and> map keptColumns (predictions (snd (adminEvaluate e s pid body)))
     = map keptColumns (predictions s)
 \<and> (\<not> truthy (b_priceStart body) \<and> distinct (map predId (predictions s))
      \<longrightarrow> map priceStart (predictions (snd (adminEvaluate e s pid body)))
            = map priceStart (predictions s))"
  using evaluatePrediction_frame evaluateExpiredPredictions_frame adminEvaluate_kept
    adminEvaluate_priceStart by blast

text \<open>An admin evaluation without a \<open>priceStart\<close> in the body keeps the stored 100.\<close>

theorem C9_frame_witness:
  "\<not> truthy (b_priceStart (ex_body\<lparr>b_priceStart := None\<rparr>))
 \<and> distinct (map predId (predictions (ex_db [ex_prediction D1h 1 Up 0 899999] [ex_profile])))
 \<and> map priceStart (predictions (snd (adminEvaluate (ex_env 900000 None ex_slot)
        (ex_db [ex_prediction D1h 1 Up 0 899999] [ex_profile]) ''p1''
        (ex_body\<lparr>b_priceStart := None\<rparr>)))) = [Some 100]
 \<and> map status (predictions (snd (adminEvaluate (ex_env 900000 None ex_slot)
        (ex_db [ex_prediction D1h 1 Up 0 899999] [ex_profile]) ''p1''
        (ex_body\<lparr>b_priceStart := None\<rparr>)))) = [Evaluated]"
proof -
  let ?b = "ex_body\<lparr>b_priceStart := None\<rparr>"
  let ?s = "ex_db [ex_prediction D1h 1 Up 0 899999] [ex_profile]"
  let ?e = "ex_env 900000 None ex_slot"
  have h1: "\<not> truthy (b_priceStart ?b)" by (simp add: truthy_def)
  have h2: "distinct (map predId (predictions ?s))" by (simp add: ex_defs)
  have st: "map status (predictions (snd (adminEvaluate ?e ?s ''p1'' ?b))) = [Evaluated]"
    by (simp add: adminEvaluate_def parseResult_def ex_defs truthy_def Let_def)
  from C9_frame[of ?e ?s "''p1''" ?b] h1 h2
  have "map priceStart (predictions (snd (adminEvaluate ?e ?s ''p1'' ?b)))
            = map priceStart (predictions ?s)" by blast
  then have "map priceStart (predictions (snd (adminEvaluate ?e ?s ''p1'' ?b))) = [Some 100]"
    by (simp add: ex_defs)
  with h1 h2 st show ?thesis by blast
qed

text \<open>
  Claim C9 as stated fails on the admin route: a body with \<open>priceStart = 5\<close> replaces
  the stored entry price 100 by 5.
\<close>

theorem C9_admin_priceStart_counterexample:
  "map priceStart (predictions (ex_db [ex_prediction D1h 1 Up 0 899999] [ex_profile]))
     = [Some 100]
 \<and> fst (adminEvaluate (ex_env 900000 None ex_slot)
        (ex_db [ex_prediction D1h 1 Up 0 899999] [ex_profile]) ''p1'' ex_body) = Inr ()
 \<and> map priceStart (predictions (snd (adminEvaluate (ex_env 900000 None ex_slot)
        (ex_db [ex_prediction D1h 1 Up 0 899999] [ex_profile]) ''p1'' ex_body))) = [Some 5]"
  by (simp add: adminEvaluate_def parseResult_def ex_defs truthy_def Let_def)

section \<open>Properties of createPrediction\<close>

lemma createPrediction_Inr:
  assumes "createPrediction e s inp = (Inr p, s')"
  shows "\<exists>u a currentPrice.
      find (\<lambda>u. userIdent u = in_userId inp) (users s) = Some u \<and> emailVerified u
    \<and> find (\<lambda>a. symbol a = in_assetSymbol inp) (assets s) = Some a \<and> isActive a
    \<and> isSlotValid e (in_duration inp) (as_slotNumber (getCurrentActiveSlot e (in_duration inp)))
    \<and> find (\<lambda>p. userId p = in_userId inp \<and> assetId p = assetIdent a
                  \<and> duration p = in_duration inp
                  \<and> slotNumber p = as_slotNumber (getCurrentActiveSlot e (in_duration inp))
                  \<and> slotStart p = as_slotStart (getCurrentActiveSlot e (in_duration inp)))
          (predictions s) = None
    \<and> isWithinActiveSlot e (now e) (in_duration inp)
    \<and> p = insertedRow e inp a (getCurrentActiveSlot e (in_duration inp)) currentPrice
    \<and> predictions s' = predictions s @ [p]
    \<and> users s' = users s \<and> assets s' = assets s"
  using assms unfolding createPrediction_def
  by (auto simp: Let_def split: option.splits if_splits)

lemma slotKey_insertedRow:
  "slotKey (insertedRow e inp a sl c)
     = (in_userId inp, assetIdent a, in_duration inp, as_slotNumber sl, as_slotStart sl)"
  by (simp add: slotKey_def insertedRow_def)

lemma createPrediction_Inl:
  assumes "fst (createPrediction e s inp) = Inl err"
  shows "snd (createPrediction e s inp) = s"
  using assms unfolding createPrediction_def
  by (auto simp: Let_def split: option.splits if_splits)

lemma find_None_slotKey:
  assumes "find (\<lambda>p. userId p = u \<and> assetId p = a \<and> duration p = d \<and> slotNumber p = n
                      \<and> slotStart p = st) xs = None"
  shows "(u, a, d, n, st) \<notin> slotKey ` set xs"
  using assms by (auto simp: find_None_iff slotKey_def)

lemma createPrediction_keeps_invariant:
  assumes "distinct (map slotKey (filter (\<lambda>p. status p = Active) (predictions s)))"
  shows "distinct (map slotKey (filter (\<lambda>p. status p = Active)
            (predictions (snd (createPrediction e s inp)))))"
proof (cases "fst (createPrediction e s inp)")
  case (Inl err)
  then show ?thesis using createPrediction_Inl assms by metis
next
  case (Inr p)
  then have cp: "createPrediction e s inp = (Inr p, snd (createPrediction e s inp))"
    by (simp add: prod_eq_iff)
  from createPrediction_Inr[OF cp] obtain u a c where all:
      "find (\<lambda>u. userIdent u = in_userId inp) (users s) = Some u \<and> emailVerified u
    \<and> find (\<lambda>a. symbol a = in_assetSymbol inp) (assets s) = Some a \<and> isActive a
    \<and> isSlotValid e (in_duration inp) (as_slotNumber (getCurrentActiveSlot e (in_duration inp)))
    \<and> find (\<lambda>p. userId p = in_userId inp \<and> assetId p = assetIdent a
                  \<and> duration p = in_duration inp
                  \<and> slotNumber p = as_slotNumber (getCurrentActiveSlot e (in_duration inp))
                  \<and> slotStart p = as_slotStart (getCurrentActiveSlot e (in_duration inp)))
          (predictions s) = None
    \<and> isWithinActiveSlot e (now e) (in_duration inp)
    \<and> p = insertedRow e inp a (getCurrentActiveSlot e (in_duration inp)) c
    \<and> predictions (snd (createPrediction e s inp)) = predictions s @ [p]
    \<and> users (snd (createPrediction e s inp)) = users s
    \<and> assets (snd (createPrediction e s inp)) = assets s"
    by blast
  have
    nf: "find (\<lambda>p. userId p = in_userId inp \<and> assetId p = assetIdent a
                  \<and> duration p = in_duration inp
                  \<and> slotNumber p = as_slotNumber (getCurrentActiveSlot e (in_duration inp))
                  \<and> slotStart p = as_slotStart (getCurrentActiveSlot e (in_duration inp)))
          (predictions s) = None"
    and key: "slotKey p = (in_userId inp, assetIdent a, in_duration inp,
                 as_slotNumber (getCurrentActiveSlot e (in_duration inp)),
                 as_slotStart (getCurrentActiveSlot e (in_duration inp)))"
    and app: "predictions (snd (createPrediction e s inp)) = predictions s @ [p]"
    using all by (simp_all add: slotKey_insertedRow)
  from find_None_slotKey[OF nf] key have "slotKey p \<notin> slotKey ` set (predictions s)" by simp
  then have "slotKey p \<notin> slotKey ` set (filter (\<lambda>p. status p = Active) (predictions s))"
    by auto
  with assms show ?thesis unfolding app by auto
qed

lemma find_append_None:
  assumes "find P xs = None" and "P x"
  shows "find P (xs @ [x]) = Some x"
  using assms by (induction xs) (auto split: if_splits)

lemma createPrediction_twice:
  assumes cp: "createPrediction e s inp = (Inr p, s')"
    and same: "getCurrentActiveSlot e' (in_duration inp) = getCurrentActiveSlot e (in_duration inp)"
    and valid: "isSlotValid e' (in_duration inp)
                  (as_slotNumber (getCurrentActiveSlot e' (in_duration inp)))"
  shows "createPrediction e' s' inp = (Inl AlreadyHavePrediction, s')"
    and "length (filter (\<lambda>q. slotKey q = slotKey p) (predictions s')) = 1"
proof -
  let ?sl = "getCurrentActiveSlot e (in_duration inp)"
  from createPrediction_Inr[OF cp] obtain u a c where all:
      "find (\<lambda>u. userIdent u = in_userId inp) (users s) = Some u \<and> emailVerified u
    \<and> find (\<lambda>a. symbol a = in_assetSymbol inp) (assets s) = Some a \<and> isActive a
    \<and> isSlotValid e (in_duration inp) (as_slotNumber (getCurrentActiveSlot e (in_duration inp)))
    \<and> find (\<lambda>p. userId p = in_userId inp \<and> assetId p = assetIdent a
                  \<and> duration p = in_duration inp
                  \<and> slotNumber p = as_slotNumber (getCurrentActiveSlot e (in_duration inp))
                  \<and> slotStart p = as_slotStart (getCurrentActiveSlot e (in_duration inp)))
          (predictions s) = None
    \<and> isWithinActiveSlot e (now e) (in_duration inp)
    \<and> p = insertedRow e inp a (getCurrentActiveSlot e (in_duration inp)) c
    \<and> predictions s' = predictions s @ [p]
    \<and> users s' = users s \<and> assets s' = assets s"
    by blast
  have
    fu: "find (\<lambda>u. userIdent u = in_userId inp) (users s) = Some u" "emailVerified u"
    and fa: "find (\<lambda>a. symbol a = in_assetSymbol inp) (assets s) = Some a" "isActive a"
    and nf: "find (\<lambda>p. userId p = in_userId inp \<and> assetId p = assetIdent a
                  \<and> duration p = in_duration inp
                  \<and> slotNumber p = as_slotNumber ?sl
                  \<and> slotStart p = as_slotStart ?sl) (predictions s) = None"
    and key: "slotKey p = (in_userId inp, assetIdent a, in_duration inp,
                 as_slotNumber ?sl, as_slotStart ?sl)"
    and app: "predictions s' = predictions s @ [p]"
    and us: "users s' = users s" and as: "assets s' = assets s"
    using all by (simp_all add: slotKey_insertedRow)
  have pk: "userId p = in_userId inp \<and> assetId p = assetIdent a
                  \<and> duration p = in_duration inp
                  \<and> slotNumber p = as_slotNumber ?sl
                  \<and> slotStart p = as_slotStart ?sl"
    using key by (simp add: slotKey_def)
  have fd: "find (\<lambda>p. userId p = in_userId inp \<and> assetId p = assetIdent a
                  \<and> duration p = in_duration inp
                  \<and> slotNumber p = as_slotNumber ?sl
                  \<and> slotStart p = as_slotStart ?sl) (predictions s') = Some p"
    unfolding app using nf pk by (rule find_append_None)
  show "createPrediction e' s' inp = (Inl AlreadyHavePrediction, s')"
    using fu fa fd valid unfolding createPrediction_def us as same
    by (simp add: Let_def same)
  from find_None_slotKey[OF nf] key have "slotKey p \<notin> slotKey ` set (predictions s)" by simp
  then have "filter (\<lambda>q. slotKey q = slotKey p) (predictions s) = []"
    by (metis (mono_tags, lifting) filter_False image_eqI)
  then show "length (filter (\<lambda>q. slotKey q = slotKey p) (predictions s')) = 1"
    unfolding app by simp
qed

text \<open>
  Claim C6. If the store holds at most one active prediction per tuple (user, asset,
  duration, slot number, slot start), it still does after createPrediction, whatever the
  call returns. And when a call succeeds, a second call with the same arguments while
  lib/slots reports the same current slot (and still accepts it) fails with
  \<open>AlreadyHavePrediction\<close> (the spec's DuplicatePredictionError), leaves the store as the
  first call left it, and the store holds exactly one prediction with that tuple.
\<close>

theorem C6_no_duplicate:
  "(distinct (map slotKey (filter (\<lambda>p. status p = Active) (predictions s0)))
      \<longrightarrow> distinct (map slotKey (filter (\<lambda>p. status p = Active)
                      (predictions (snd (createPrediction e0 s0 inp0))))))
 \<and> (createPrediction e s inp = (Inr p, s')
      \<and> getCurrentActiveSlot e' (in_duration inp) = getCurrentActiveSlot e (in_duration inp)
      \<and> isSlotValid e' (in_duration inp)
           (as_slotNumber (getCurrentActiveSlot e' (in_duration inp)))
      \<longrightarrow> createPrediction e' s' inp = (Inl AlreadyHavePrediction, s')
          \<and> length (filter (\<lambda>q. slotKey q = slotKey p) (predictions s')) = 1)"
  using createPrediction_keeps_invariant createPrediction_twice by blast

text \<open>
  Two requests of user u1 for BTC, up, 1h, at 00:05 and 00:06 of the epoch day, in the empty
  store: the first inserts the row, the second is refused.
\<close>

theorem C6_no_duplicate_witness:
  "fst (createPrediction (ex_env 300000 (Some 100) ex_slot) (ex_db [] []) ex_input)
     = Inr (ex_prediction D1h 1 Up 0 899999
              \<lparr>predId := ''p2'', timestampCreated := 300000\<rparr>)
 \<and> createPrediction (ex_env 360000 (Some 101) ex_slot)
      (snd (createPrediction (ex_env 300000 (Some 100) ex_slot) (ex_db [] []) ex_input))
      ex_input
     = (Inl AlreadyHavePrediction,
        snd (createPrediction (ex_env 300000 (Some 100) ex_slot) (ex_db [] []) ex_input))
 \<and> length (predictions
      (snd (createPrediction (ex_env 300000 (Some 100) ex_slot) (ex_db [] []) ex_input))) = 1"
proof -
  let ?e = "ex_env 300000 (Some 100) ex_slot"
  let ?e' = "ex_env 360000 (Some 101) ex_slot"
  let ?s = "ex_db [] []"
  let ?p = "ex_prediction D1h 1 Up 0 899999 \<lparr>predId := ''p2'', timestampCreated := 300000\<rparr>"
  let ?s' = "snd (createPrediction ?e ?s ex_input)"
  have f: "fst (createPrediction ?e ?s ex_input) = Inr ?p"
    by (simp add: createPrediction_def insertedRow_def ex_defs truthy_def jsOr_def Let_def)
  then have cp: "createPrediction ?e ?s ex_input = (Inr ?p, ?s')"
    by (simp add: prod_eq_iff)
  have h2: "getCurrentActiveSlot ?e' (in_duration ex_input)
              = getCurrentActiveSlot ?e (in_duration ex_input)"
    by (simp add: ex_defs)
  have h3: "isSlotValid ?e' (in_duration ex_input)
              (as_slotNumber (getCurrentActiveSlot ?e' (in_duration ex_input)))"
    by (simp add: ex_defs)
  have len: "length (predictions ?s') = 1"
    by (simp add: createPrediction_def insertedRow_def ex_defs truthy_def jsOr_def Let_def)
  from C6_no_duplicate[of _ _ _ ?e ?s ex_input ?p ?s' ?e'] cp h2 h3
  have "createPrediction ?e' ?s' ex_input = (Inl AlreadyHavePrediction, ?s')" by blast
  with f len show ?thesis by blast
qed

section \<open>Slot numbers\<close>

lemma config_facts:
  assumes "SLOT_CONFIGURATIONS d = Some c"
  shows "1 \<le> intervals c" and "0 < intervalDuration c" and "int (length (points c)) = intervals c"
  using assms by (cases d; auto simp: SLOT_CONFIGURATIONS_def)+

lemma slotNumberAt_div:
  "slotNumberAt c ps t
     = min (max ((t - ps) div (60000 * intervalDuration c) + 1) 1) (intervals c)"
proof -
  have "real_of_int (t - ps) / 60000 / real_of_int (intervalDuration c)
          = real_of_int (t - ps) / real_of_int (60000 * intervalDuration c)"
    by simp
  then have "\<lfloor>real_of_int (t - ps) / 60000 / real_of_int (intervalDuration c)\<rfloor>
          = (t - ps) div (60000 * intervalDuration c)"
    by (simp only: floor_divide_of_int_eq)
  then show ?thesis by (simp add: slotNumberAt_def Let_def)
qed

lemma slotNumberAt_range:
  assumes "1 \<le> intervals c"
  shows "1 \<le> slotNumberAt c ps t" and "slotNumberAt c ps t \<le> intervals c"
  using assms by (simp_all add: slotNumberAt_div)

lemma slotNumberAt_mono:
  assumes "0 < intervalDuration c" and "t \<le> t'"
  shows "slotNumberAt c ps t \<le> slotNumberAt c ps t'"
proof -
  have "(t - ps) div (60000 * intervalDuration c) \<le> (t' - ps) div (60000 * intervalDuration c)"
    using assms by (intro zdiv_mono1) auto
  then show ?thesis unfolding slotNumberAt_div by (auto simp: min_def max_def)
qed

lemma localMidnight_le: "localMidnight tzo t \<le> t"
  by (simp add: localMidnight_def msPerDay_def)

lemma getCurrentSlot_formula:
  assumes "SLOT_CONFIGURATIONS d = Some c"
  shows "getCurrentSlot tzo t d = Inr (slotNumberAt c (localMidnight tzo t) t)"
proof -
  have pos: "0 < intervalDuration c" using config_facts(2)[OF assms] .
  have "0 \<le> (t - localMidnight tzo t) div (60000 * intervalDuration c)"
    using localMidnight_le[of tzo t] pos by (simp add: pos_imp_zdiv_nonneg_iff)
  then have "max ((t - localMidnight tzo t) div (60000 * intervalDuration c) + 1) 1
             = (t - localMidnight tzo t) div (60000 * intervalDuration c) + 1"
    by simp
  then show ?thesis
    using assms by (simp add: getCurrentSlot_def slotNumberAt_div Let_def mult.commute)
qed

lemma getSlotForDate_slotNumber:
  assumes "SLOT_CONFIGURATIONS d = Some c"
  shows "si_slotNumber (getSlotForDate z t d) = slotNumberAt c (periodStart z d t) t"
  using assms by (simp add: getSlotForDate_def Let_def)


text \<open>
  For a supported duration and any instant, the slot number of getSlotForDate is the floor
  of the minutes since the duration's period start over the slot length, plus one,
  clamped to 1 .. slot count; it lies in that range, and for two instants of one period
  (the same period start) the later one has no smaller slot number. getCurrentSlot
  computes the same number from the server's local midnight, which is its anchor for
  every duration (its missing lower clamp never applies, the clock being past that
  midnight), and is non-decreasing within a local day in the same way.
\<close>

lemma slot_number_formula:
  assumes "SLOT_CONFIGURATIONS d = Some c"
  shows "si_slotNumber (getSlotForDate z t d)
           = min (max (\<lfloor>real_of_int (t - periodStart z d t) / 60000
                         / real_of_int (intervalDuration c)\<rfloor> + 1) 1) (intervals c)
       \<and> 1 \<le> si_slotNumber (getSlotForDate z t d)
       \<and> si_slotNumber (getSlotForDate z t d) \<le> intervals c
       \<and> (t \<le> t' \<and> periodStart z d t' = periodStart z d t
            \<longrightarrow> si_slotNumber (getSlotForDate z t d) \<le> si_slotNumber (getSlotForDate z t' d))
       \<and> getCurrentSlot tzo t d
           = Inr (min (max (\<lfloor>real_of_int (t - localMidnight tzo t) / 60000
                              / real_of_int (intervalDuration c)\<rfloor> + 1) 1) (intervals c))
       \<and> (t \<le> t' \<and> localMidnight tzo t' = localMidnight tzo t
            \<longrightarrow> (\<exists>n n'. getCurrentSlot tzo t d = Inr n \<and> getCurrentSlot tzo t' d = Inr n'
                        \<and> 1 \<le> n \<and> n \<le> n' \<and> n' \<le> intervals c))"
proof -
  note sn = getSlotForDate_slotNumber[OF assms]
  note cs = getCurrentSlot_formula[OF assms]
  note rg = slotNumberAt_range[OF config_facts(1)[OF assms]]
  note mn = slotNumberAt_mono[OF config_facts(2)[OF assms]]
  have 1: "si_slotNumber (getSlotForDate z t d)
           = min (max (\<lfloor>real_of_int (t - periodStart z d t) / 60000
                         / real_of_int (intervalDuration c)\<rfloor> + 1) 1) (intervals c)"
    unfolding sn by (simp add: slotNumberAt_def Let_def)
  have 2: "1 \<le> si_slotNumber (getSlotForDate z t d)"
    and 3: "si_slotNumber (getSlotForDate z t d) \<le> intervals c"
    unfolding sn by (rule rg)+
  have 4: "t \<le> t' \<and> periodStart z d t' = periodStart z d t
            \<longrightarrow> si_slotNumber (getSlotForDate z t d) \<le> si_slotNumber (getSlotForDate z t' d)"
    unfolding sn using mn by auto
  have 5: "getCurrentSlot tzo t d
           = Inr (min (max (\<lfloor>real_of_int (t - localMidnight tzo t) / 60000
                              / real_of_int (intervalDuration c)\<rfloor> + 1) 1) (intervals c))"
    unfolding cs by (simp add: slotNumberAt_def Let_def)
  have 6: "t \<le> t' \<and> localMidnight tzo t' = localMidnight tzo t
            \<longrightarrow> (\<exists>n n'. getCurrentSlot tzo t d = Inr n \<and> getCurrentSlot tzo t' d = Inr n'
                        \<and> 1 \<le> n \<and> n \<le> n' \<and> n' \<le> intervals c)"
    unfolding cs using mn rg by auto
  from 1 2 3 4 5 6 show ?thesis by blast
qed

text \<open>
  Duration 24h on the epoch day: 10:30 and 13:00 local time are in slots 4 and 5, for
  getSlotForDate in the zone +01:00 and for getCurrentSlot on a server at offset 0.
\<close>

lemma slot_number_formula_example:
  "SLOT_CONFIGURATIONS D24h
     = Some \<lparr>intervals = 8, intervalDuration = 180, points = [40, 30, 20, 15, 10, 5, 2, 1]\<rparr>
 \<and> (34200000::int) \<le> 43200000
 \<and> periodStart ex_zone D24h 43200000 = periodStart ex_zone D24h 34200000
 \<and> localMidnight 0 43200000 = localMidnight 0 34200000
 \<and> si_slotNumber (getSlotForDate ex_zone 34200000 D24h) = 4
 \<and> si_slotNumber (getSlotForDate ex_zone 43200000 D24h) = 5
 \<and> getCurrentSlot 0 34200000 D24h = Inr 4
 \<and> getCurrentSlot 0 43200000 D24h = Inr 5"
proof -
  let ?c = "\<lparr>intervals = 8, intervalDuration = 180, points = [40, 30, 20, 15, 10, 5, 2, 1]\<rparr>"
  have h: "SLOT_CONFIGURATIONS D24h = Some ?c" by (simp add: SLOT_CONFIGURATIONS_def)
  have p: "periodStart ex_zone D24h 43200000 = periodStart ex_zone D24h 34200000"
    by (simp add: periodStart_def ex_zone_def localMidnight_def localTime_def msPerDay_def)
  have p1: "periodStart ex_zone D24h 34200000 = - 3600000"
    by (simp add: periodStart_def ex_zone_def localMidnight_def localTime_def msPerDay_def)
  have m: "localMidnight 0 43200000 = localMidnight 0 34200000"
    by (simp add: localMidnight_def localTime_def msPerDay_def)
  have m1: "localMidnight 0 34200000 = 0"
    by (simp add: localMidnight_def localTime_def msPerDay_def)
  note inst = slot_number_formula[OF h, of ex_zone 34200000 43200000 0]
  note inst' = slot_number_formula[OF h, of ex_zone 43200000 43200000 0]
  have a: "si_slotNumber (getSlotForDate ex_zone 34200000 D24h) = 4"
    using inst unfolding p1 by simp
  have b: "si_slotNumber (getSlotForDate ex_zone 43200000 D24h) = 5"
    using inst' unfolding p p1 by simp
  have c: "getCurrentSlot 0 34200000 D24h = Inr 4"
    using inst unfolding m1 by simp
  have d: "getCurrentSlot 0 43200000 D24h = Inr 5"
    using inst' unfolding m m1 by simp
  from h p m a b c d show ?thesis by simp
qed

text \<open>
  Claim C3 holds for getSlotForDate, as shown above, and fails on getCurrentSlot for the
  durations whose period is longer than a day. On Wednesday 7 January 1970 at 12:00 UTC,
  duration 1w (slots of one day), a server at offset 0 gets slot 1 from getCurrentSlot, as
  on every day of the week: the minutes it counts are those since the local midnight, not
  since the start of the week. getSlotForDate, in the zone +01:00, gives slot 3, the third
  day of the week that began on Monday.
\<close>

theorem C3_getCurrentSlot_anchor:
  "getCurrentSlot 0 561600000 D1w = Inr 1
 \<and> si_slotNumber (getSlotForDate ex_zone 561600000 D1w) = 3
 \<and> periodStart ex_zone D1w 561600000 = 342000000
 \<and> (561600000 - 342000000) div (60000 * 1440) + 1 = (3::int)"
  by code_simp

section \<open>The zone of the computation\<close>

text \<open>
  The earlier getCurrentCESTTime moves the clock so that the server's local reading of the
  result is UTC plus two hours, at every instant of the year: it is a constant shift.
\<close>

lemma getCurrentCESTTime_fixed_local:
  "localTime tzo (getCurrentCESTTime_fixed tzo clock) = clock + 2 * 3600000"
  by (simp add: getCurrentCESTTime_fixed_def localTime_def Let_def)

text \<open>
  Claim C8 fails on getCurrentSlot, by the same anchor: the midnight is that of the
  server's local zone, so for one instant (02:00 UTC of the epoch day, duration 24h) a
  server at offset 0 answers slot 1 and a server two hours east of UTC answers slot 2.
  getSlotForDate takes its calendar from the zone Europe/Berlin alone.
\<close>

theorem C8_getCurrentSlot_server_zone:
  "getCurrentSlot 0 7200000 D24h = Inr 1 \<and> getCurrentSlot (- 120) 7200000 D24h = Inr 2"
  by (simp add: getCurrentSlot_def SLOT_CONFIGURATIONS_def localMidnight_def localTime_def
      msPerDay_def Let_def)

section \<open>Slot boundaries\<close>







































section \<open>The lock gate and creation\<close>

lemma createPrediction_accepts_iff:
  "(\<exists>p s'. createPrediction e s inp = (Inr p, s'))
   \<longleftrightarrow> (\<exists>u a c.
      find (\<lambda>u. userIdent u = in_userId inp) (users s) = Some u \<and> emailVerified u
    \<and> find (\<lambda>a. symbol a = in_assetSymbol inp) (assets s) = Some a \<and> isActive a
    \<and> isSlotValid e (in_duration inp) (as_slotNumber (getCurrentActiveSlot e (in_duration inp)))
    \<and> find (\<lambda>p. userId p = in_userId inp \<and> assetId p = assetIdent a
                  \<and> duration p = in_duration inp
                  \<and> slotNumber p = as_slotNumber (getCurrentActiveSlot e (in_duration inp))
                  \<and> slotStart p = as_slotStart (getCurrentActiveSlot e (in_duration inp)))
          (predictions s) = None
    \<and> isWithinActiveSlot e (now e) (in_duration inp)
    \<and> jsOr (getLiveAssetPrice e (in_assetSymbol inp)) (getAssetPrice e (in_assetSymbol inp))
          = Some c
    \<and> c \<noteq> 0)"
  unfolding createPrediction_def
  by (auto simp: Let_def jsOr_def truthy_def split: option.splits if_splits)

lemma isSlotLocked_iff:
  "isSlotLocked tzo clock d n \<longleftrightarrow> fst (getSlotTimes tzo clock d n) - clock \<le> 5 * 60 * 1000"
  by (simp add: isSlotLocked_def getCurrentCESTTime_def LOCK_BEFORE_START_MINUTES_def Let_def)


text \<open>
  Claim C5, as amended. isSlotLocked (and the \<open>isLocked\<close> of getSlotLockStatus) is
  true exactly when the slot's start, as getSlotTimes computes it, is at most 5 minutes
  after the clock: within 5 minutes before the start and at every instant from the start
  on, and false while the start is more than 5 minutes away. createPrediction does not
  consult the lock gate: it accepts a request exactly when the user is there and verified,
  the asset is there and active, lib/slots accepts the current slot, no prediction with the
  same user, asset, duration, slot number and slot start exists, lib/slots reports the
  clock within the active slot, and a non-zero price is at hand.
\<close>

theorem C5_lock_gate:
  "(isSlotLocked tzo clock d n
      \<longleftrightarrow> fst (getSlotTimes tzo clock d n) - clock \<le> 5 * 60 * 1000)
 \<and> ls_isLocked (getSlotLockStatus tzo clock d n) = isSlotLocked tzo clock d n
 \<and> ((\<exists>p s'. createPrediction e s inp = (Inr p, s'))
      \<longleftrightarrow> (\<exists>u a c.
      find (\<lambda>u. userIdent u = in_userId inp) (users s) = Some u \<and> emailVerified u
    \<and> find (\<lambda>a. symbol a = in_assetSymbol inp) (assets s) = Some a \<and> isActive a
    \<and> isSlotValid e (in_duration inp) (as_slotNumber (getCurrentActiveSlot e (in_duration inp)))
    \<and> find (\<lambda>p. userId p = in_userId inp \<and> assetId p = assetIdent a
                  \<and> duration p = in_duration inp
                  \<and> slotNumber p = as_slotNumber (getCurrentActiveSlot e (in_duration inp))
                  \<and> slotStart p = as_slotStart (getCurrentActiveSlot e (in_duration inp)))
          (predictions s) = None
    \<and> isWithinActiveSlot e (now e) (in_duration inp)
    \<and> jsOr (getLiveAssetPrice e (in_assetSymbol inp)) (getAssetPrice e (in_assetSymbol inp))
          = Some c
    \<and> c \<noteq> 0))"
proof -
  have 2: "ls_isLocked (getSlotLockStatus tzo clock d n) = isSlotLocked tzo clock d n"
    by (simp add: getSlotLockStatus_def isSlotLocked_def Let_def)
  show ?thesis
    by (intro conjI) (rule isSlotLocked_iff 2 createPrediction_accepts_iff)+
qed

text \<open>Four minutes before the 00:45 boundary: slot 4 is locked, the request is accepted.\<close>

theorem C5_lock_gate_witness:
  "fst (getSlotTimes 0 2460000 D1h 4) - 2460000 \<le> (5 * 60 * 1000 :: int)
 \<and> isSlotLocked 0 2460000 D1h 4
 \<and> (\<exists>p s'. createPrediction
          (ex_env 2460000 (Some 100)
             \<lparr>as_slotNumber = 3, as_slotStart = 1800000, as_slotEnd = 2699999\<rparr>)
          (ex_db [] []) ex_input = (Inr p, s'))"
proof -
  let ?e = "ex_env 2460000 (Some 100)
             \<lparr>as_slotNumber = 3, as_slotStart = 1800000, as_slotEnd = 2699999\<rparr>"
  let ?s = "ex_db [] []"
  note r = C5_lock_gate[of 0 2460000 D1h 4 ?e ?s ex_input]
  have g: "getSlotTimes 0 2460000 D1h 4 = (2700000, 3599999)" by code_simp
  have h: "fst (getSlotTimes 0 2460000 D1h 4) - 2460000 \<le> (5 * 60 * 1000 :: int)"
    unfolding g by simp
  have l: "isSlotLocked 0 2460000 D1h 4"
    using r[THEN conjunct1] h by blast
  have cond: "\<exists>u a c.
      find (\<lambda>u. userIdent u = in_userId ex_input) (users ?s) = Some u \<and> emailVerified u
    \<and> find (\<lambda>a. symbol a = in_assetSymbol ex_input) (assets ?s) = Some a \<and> isActive a
    \<and> isSlotValid ?e (in_duration ex_input)
         (as_slotNumber (getCurrentActiveSlot ?e (in_duration ex_input)))
    \<and> find (\<lambda>p. userId p = in_userId ex_input \<and> assetId p = assetIdent a
                  \<and> duration p = in_duration ex_input
                  \<and> slotNumber p = as_slotNumber (getCurrentActiveSlot ?e (in_duration ex_input))
                  \<and> slotStart p = as_slotStart (getCurrentActiveSlot ?e (in_duration ex_input)))
          (predictions ?s) = None
    \<and> isWithinActiveSlot ?e (now ?e) (in_duration ex_input)
    \<and> jsOr (getLiveAssetPrice ?e (in_assetSymbol ex_input))
           (getAssetPrice ?e (in_assetSymbol ex_input)) = Some c
    \<and> c \<noteq> 0"
    apply (rule exI[of _ ex_user], rule exI[of _ ex_asset], rule exI[of _ 100])
    by (simp add: ex_defs jsOr_def truthy_def)
  have c: "\<exists>p s'. createPrediction ?e ?s ex_input = (Inr p, s')"
    using r[THEN conjunct2, THEN conjunct2] cond by blast
  from h l c show ?thesis by (intro conjI)
qed

text \<open>
  Claim C5 as stated fails on createPrediction. Duration 1h, epoch day, current slot 3
  (00:30 to 00:45): at 00:35, ten minutes before the boundary, slot 4 is unlocked and the
  request is accepted; at 00:41, four minutes before it, slot 4 is locked (and so is the
  running slot 3, whose start is past), and the same request is accepted all the same.
\<close>

theorem C5_create_counterexample:
  "\<not> isSlotLocked 0 2100000 D1h 4
 \<and> isSlotLocked 0 2460000 D1h 4
 \<and> isSlotLocked 0 2460000 D1h 3
 \<and> fst (createPrediction
          (ex_env 2100000 (Some 100)
             \<lparr>as_slotNumber = 3, as_slotStart = 1800000, as_slotEnd = 2699999\<rparr>)
          (ex_db [] []) ex_input)
     = Inr (ex_prediction D1h 3 Up 1800000 2699999
              \<lparr>predId := ''p2'', timestampCreated := 2100000\<rparr>)
 \<and> fst (createPrediction
          (ex_env 2460000 (Some 100)
             \<lparr>as_slotNumber = 3, as_slotStart = 1800000, as_slotEnd = 2699999\<rparr>)
          (ex_db [] []) ex_input)
     = Inr (ex_prediction D1h 3 Up 1800000 2699999
              \<lparr>predId := ''p2'', timestampCreated := 2460000\<rparr>)"
proof -
  have l1: "\<not> isSlotLocked 0 2100000 D1h 4" by code_simp
  have l2: "isSlotLocked 0 2460000 D1h 4" by code_simp
  have l3: "isSlotLocked 0 2460000 D1h 3" by code_simp
  have c1: "fst (createPrediction
          (ex_env 2100000 (Some 100)
             \<lparr>as_slotNumber = 3, as_slotStart = 1800000, as_slotEnd = 2699999\<rparr>)
          (ex_db [] []) ex_input)
     = Inr (ex_prediction D1h 3 Up 1800000 2699999
              \<lparr>predId := ''p2'', timestampCreated := 2100000\<rparr>)"
    by (simp add: createPrediction_def insertedRow_def ex_defs truthy_def jsOr_def Let_def)
  have c2: "fst (createPrediction
          (ex_env 2460000 (Some 100)
             \<lparr>as_slotNumber = 3, as_slotStart = 1800000, as_slotEnd = 2699999\<rparr>)
          (ex_db [] []) ex_input)
     = Inr (ex_prediction D1h 3 Up 1800000 2699999
              \<lparr>predId := ''p2'', timestampCreated := 2460000\<rparr>)"
    by (simp add: createPrediction_def insertedRow_def ex_defs truthy_def jsOr_def Let_def)
  from l1 l2 l3 c1 c2 show ?thesis by (intro conjI)
qed

end
